theory Spec2Isabelle
  imports Main "HOL-Library.Monad_Syntax"
begin

section \<open>Machine integers of the emitter\<close>

text \<open>
  The emitter (\<^verbatim>\<open>xla/service/gpu/ir_emitter_triton.cc\<close>) mixes three integer types:
  \<^verbatim>\<open>int64_t\<close> (shape dimensions, the fields of the tiling configuration, the fields of an
  iteration specification), \<^verbatim>\<open>int\<close> (most locals of \<^verbatim>\<open>MatMulImpl\<close>) and \<^verbatim>\<open>unsigned\<close>
  (bit widths). 64-bit quantities are modelled as \<open>int\<close>; every conversion to a 32-bit type
  and every operation carried out in a 32-bit type is written out with the two's complement
  wrap \<open>s32\<close> (or \<open>u32\<close>), which is what the conversion does and what the targets compute
  on signed overflow. Division and remainder truncate towards zero, as in C++.
\<close>

definition s32 :: "int \<Rightarrow> int" where
  "s32 x = (x + 2147483648) mod 4294967296 - 2147483648"

definition u32 :: "int \<Rightarrow> int" where
  "u32 x = x mod 4294967296"

definition INT_MAX :: int where
  "INT_MAX = 2147483647"

definition tdiv :: "int \<Rightarrow> int \<Rightarrow> int" where
  "tdiv a b = sgn a * sgn b * (\<bar>a\<bar> div \<bar>b\<bar>)"

definition trem :: "int \<Rightarrow> int \<Rightarrow> int" where
  "trem a b = a - b * tdiv a b"

text \<open>
  \<^verbatim>\<open>ceil(1.0 * a / b)\<close> converted to \<^verbatim>\<open>int\<close>, for 32-bit \<open>a\<close> and \<open>b\<close>: the quotient of two
  such values is never closer to an integer than a double can tell apart, so the result is
  the exact ceiling of the quotient. A zero divisor gives an infinity or a NaN, whose
  conversion is undefined: the model has no value there.
\<close>

definition ceil_div :: "int \<Rightarrow> int \<Rightarrow> int option" where
  "ceil_div a b = (if b = 0 then None else Some (- ((- a) div b)))"

section \<open>Status values and formatted messages\<close>

text \<open>
  A \<^verbatim>\<open>StatusOr<T>\<close> is either a value or an error status; the only status this file
  creates is \<^verbatim>\<open>ResourceExhausted\<close>. A failed \<^verbatim>\<open>CHECK\<close>, a \<^verbatim>\<open>LOG(FATAL)\<close> and an access
  outside a container end the process: a function that can do so returns an \<open>option\<close>,
  \<open>None\<close> standing for the abort.
\<close>

datatype 'a StatusOr = Ok 'a | ResourceExhausted string

definition CHECK :: "bool \<Rightarrow> unit option" where
  "CHECK c = (if c then Some () else None)"

fun at :: "'a list \<Rightarrow> int \<Rightarrow> 'a option" where
  "at xs i = (if 0 \<le> i \<and> i < int (length xs) then Some (xs ! nat i) else None)"

definition digit :: "nat \<Rightarrow> char" where
  "digit d = ''0123456789'' ! d"

fun decimal :: "nat \<Rightarrow> string" where
  "decimal n = (if n < 10 then [digit n] else decimal (n div 10) @ [digit (n mod 10)])"

declare decimal.simps [simp del]

text \<open>The conversion \<^verbatim>\<open>%d\<close> of \<^verbatim>\<open>absl::StrFormat\<close>.\<close>

definition format_d :: "int \<Rightarrow> string" where
  "format_d i = (if i < 0 then CHR ''-'' # decimal (nat (- i)) else decimal (nat i))"

section \<open>Element types\<close>

datatype PrimitiveType =
  PRED | S8 | S16 | S32 | S64 | U8 | U16 | U32 | U64 | F16 | F32 | F64 | BF16 | C64 | C128

datatype Type = F64Type | F32Type | F16Type | BF16Type | I64Type | I32Type | I16Type | I8Type

fun TritonType :: "PrimitiveType \<Rightarrow> Type option" where
  "TritonType F64 = Some F64Type"
| "TritonType F32 = Some F32Type"
| "TritonType F16 = Some F16Type"
| "TritonType BF16 = Some BF16Type"
| "TritonType S64 = Some I64Type"
| "TritonType S32 = Some I32Type"
| "TritonType S16 = Some I16Type"
| "TritonType PRED = Some I8Type"
| "TritonType S8 = Some I8Type"
| "TritonType _ = None"

fun getIntOrFloatBitWidth :: "Type \<Rightarrow> int" where
  "getIntOrFloatBitWidth F64Type = 64"
| "getIntOrFloatBitWidth F32Type = 32"
| "getIntOrFloatBitWidth F16Type = 16"
| "getIntOrFloatBitWidth BF16Type = 16"
| "getIntOrFloatBitWidth I64Type = 64"
| "getIntOrFloatBitWidth I32Type = 32"
| "getIntOrFloatBitWidth I16Type = 16"
| "getIntOrFloatBitWidth I8Type = 8"

fun isFloat :: "Type \<Rightarrow> bool" where
  "isFloat F64Type = True"
| "isFloat F32Type = True"
| "isFloat F16Type = True"
| "isFloat BF16Type = True"
| "isFloat _ = False"

fun getFPMantissaWidth :: "Type \<Rightarrow> int" where
  "getFPMantissaWidth F64Type = 53"
| "getFPMantissaWidth F32Type = 24"
| "getFPMantissaWidth F16Type = 11"
| "getFPMantissaWidth BF16Type = 8"
| "getFPMantissaWidth _ = 0"

section \<open>The emitted kernel program\<close>

text \<open>
  The builder creates operations of the Triton, arith and scf dialects. An operation's result
  is used by the operations created from it, so the program is a dataflow graph; it is
  modelled as the term of each value (the operation with the terms of its operands). The order
  in which the operands of one call are created is left open by C++ and is not modelled. The
  body of the kernel function is the list of its operations that produce no value (the
  store, the return). A tensor type is given by its shape where the builder is given one.
\<close>

datatype ProgramIDDim = DimX | DimY | DimZ

datatype CmpIPredicate = slt

datatype "Value" =
    Argument nat
  | InductionVar
  | IterArg nat
  | GetProgramIdOp ProgramIDDim
  | ConstantOp Type int
  | ConstantTensorOp Type int "int list"
  | ConstantIntOp int nat
  | DivSIOp "Value" "Value"
  | RemSIOp "Value" "Value"
  | MulIOp "Value" "Value"
  | AddIOp "Value" "Value"
  | SubIOp "Value" "Value"
  | AndIOp "Value" "Value"
  | CmpIOp CmpIPredicate "Value" "Value"
  | SelectOp "Value" "Value" "Value"
  | SplatOp "Value" "int list"
  | MakeRangeOp int int
  | BroadcastOp "Value" "int list"
  | ExpandDimsOp "Value" nat
  | AddPtrOp "Value" "Value"
  | ExtSIOp Type "Value"
  | TruncFOp Type "Value"
  | ExtFOp Type "Value"
  | SIToFPOp Type "Value"
  | FPToSIOp Type "Value"
  | LoadOp "Value" "Value option" "Value option"
  | DotOp "Value" "Value" "Value" bool
  | ForOp "Value" "Value" "Value" "Value list" "Value list"
  | getResult "Value" nat

datatype Operation = StoreOp "Value" "Value" "Value" | ReturnOp

text \<open>
  \<^verbatim>\<open>Cast\<close>: the conversion of a value to another element type. The source reads the element
  type of the value; the model is given it. \<open>None\<close> is the \<^verbatim>\<open>LOG(FATAL)\<close> of an unsupported
  conversion.
\<close>

definition Cast :: "Type \<Rightarrow> Value \<Rightarrow> Type \<Rightarrow> Value option" where
  "Cast src_element_ty v dst_element_ty =
     (if src_element_ty = dst_element_ty then Some v
      else if isFloat src_element_ty \<and> isFloat dst_element_ty then
        (if (src_element_ty = F16Type \<and> dst_element_ty = BF16Type) \<or>
            (src_element_ty = BF16Type \<and> dst_element_ty = F16Type)
         then Some (TruncFOp dst_element_ty (ExtFOp F32Type v))
         else if getFPMantissaWidth src_element_ty > getFPMantissaWidth dst_element_ty
         then Some (TruncFOp dst_element_ty v)
         else Some (ExtFOp dst_element_ty v))
      else if \<not> isFloat src_element_ty \<and> isFloat dst_element_ty then
        Some (SIToFPOp dst_element_ty v)
      else if isFloat src_element_ty \<and> \<not> isFloat dst_element_ty then
        Some (FPToSIOp dst_element_ty v)
      else None)"

text \<open>\<^verbatim>\<open>CreateConst\<close>, scalar and tensor: every type of this model is an integer or a float type.\<close>

definition CreateConst :: "Type \<Rightarrow> int \<Rightarrow> Value" where
  "CreateConst ty v = ConstantOp ty v"

definition CreateConstT :: "Type \<Rightarrow> int \<Rightarrow> int list \<Rightarrow> Value" where
  "CreateConstT ty v shape = ConstantTensorOp ty v shape"

section \<open>The operation and the tiling configuration\<close>

record IterationSpecFragment =
  stride :: int
  count :: int

record Shape =
  element_type :: PrimitiveType
  dimensions :: "int list"
  minor_to_major :: "int list"

record DotDimensionNumbers =
  lhs_contracting_dimensions :: "int list"
  rhs_contracting_dimensions :: "int list"
  lhs_batch_dimensions :: "int list"
  rhs_batch_dimensions :: "int list"

record HloDotInstruction =
  operand0 :: Shape
  operand1 :: Shape
  shape :: Shape
  dot_dimension_numbers :: DotDimensionNumbers

record HloParameter =
  parameter_element_type :: PrimitiveType
  parameter_number :: int

text \<open>
  \<^verbatim>\<open>DotFusionAnalysis\<close> is declared in \<^verbatim>\<open>gemm_rewriter_triton.h\<close>, which is not part of
  the sources at hand: the emitter's two queries of it are fields of a value that the model
  is given.
\<close>

record DotFusionAnalysis =
  IterSpec :: "nat \<Rightarrow> int \<Rightarrow> IterationSpecFragment list"
  OperandToParameter :: "nat \<Rightarrow> HloParameter"

record TritonGemmKey =
  block_m :: int
  block_n :: int
  block_k :: int
  split_k :: int
  num_stages :: int
  num_warps :: int

definition rank :: "Shape \<Rightarrow> int" where
  "rank s = int (length (dimensions s))"

text \<open>
  Modelled from the spec: \<^verbatim>\<open>ShapeUtil::ElementsIn\<close> (\<^verbatim>\<open>shape_util.h\<close>), the element count
  of a shape.
\<close>

definition ElementsIn :: "Shape \<Rightarrow> int" where
  "ElementsIn s = prod_list (dimensions s)"

text \<open>
  Modelled from the spec: \<^verbatim>\<open>GetNonContractingDims\<close> (\<^verbatim>\<open>matmul_utils.h\<close>), the dimensions
  of an operand that are neither batch nor contracting, in increasing order.
\<close>

definition GetNonContractingDims :: "Shape \<Rightarrow> int list \<Rightarrow> int list \<Rightarrow> int list" where
  "GetNonContractingDims s batch_dims contracting_dims =
     filter (\<lambda>d. d \<notin> set batch_dims \<and> d \<notin> set contracting_dims) (map int [0..<length (dimensions s)])"

datatype IndexT = int32_t | int64_t

definition narrow :: "IndexT \<Rightarrow> int \<Rightarrow> int" where
  "narrow I x = (case I of int32_t \<Rightarrow> s32 x | int64_t \<Rightarrow> x)"

definition int_ty :: "IndexT \<Rightarrow> Type" where
  "int_ty I = (case I of int32_t \<Rightarrow> I32Type | int64_t \<Rightarrow> I64Type)"

definition b2i :: "bool \<Rightarrow> int" where
  "b2i c = (if c then 1 else 0)"

section \<open>MatMulImpl: dimensions and strides of the operands\<close>

text \<open>
  The locals of \<^verbatim>\<open>MatMulImpl\<close> that the analysis of the operands computes. The source's \<open>n\<close>
  and \<open>k\<close> are the fields \<open>dim_n\<close> and \<open>dim_k\<close>.
\<close>

record OperandDims =
  have_split_k :: bool
  have_batch :: bool
  lhs_nc_split :: bool
  m_minor :: int
  dim_n :: int
  dim_k :: int
  stride_lhs_m :: int
  stride_lhs_k :: int
  stride_rhs_k :: int
  stride_rhs_n :: int
  batch_size :: int
  stride_batch_lhs :: int
  stride_batch_rhs :: int
  m_full :: int

definition check_split_k_dims :: "HloDotInstruction \<Rightarrow> TritonGemmKey \<Rightarrow> int \<Rightarrow> int \<Rightarrow> unit option" where
  "check_split_k_dims dot_instr config lhs_c rhs_c =
     (let dims = dot_dimension_numbers dot_instr in do {
        lhs_b0 \<leftarrow> at (lhs_batch_dimensions dims) 0;
        CHECK (lhs_b0 = lhs_c - 1);
        rhs_b0 \<leftarrow> at (rhs_batch_dimensions dims) 0;
        CHECK (rhs_b0 = rhs_c - 1);
        lhs_split \<leftarrow> at (dimensions (operand0 dot_instr)) (lhs_c - 1);
        CHECK (split_k config = lhs_split);
        rhs_split \<leftarrow> at (dimensions (operand1 dot_instr)) (rhs_c - 1);
        CHECK (split_k config = rhs_split)
      })"

definition batch_or_split ::
  "IndexT \<Rightarrow> DotFusionAnalysis \<Rightarrow> DotDimensionNumbers \<Rightarrow> bool \<Rightarrow> bool \<Rightarrow> bool \<Rightarrow> int \<Rightarrow> int \<Rightarrow>
   (int \<times> int \<times> int \<times> int) option" where
  "batch_or_split I analysis dims have_split_k' have_batch' lhs_nc_split' lhs_nc m_minor' =
     (if lhs_nc_split' then do {
        major \<leftarrow> at (IterSpec analysis 0 lhs_nc) 1;
        let batch_size' = s32 (count major);
        Some (batch_size', narrow I (stride major), 0, s32 (m_minor' * batch_size'))
      } else if have_batch' then do {
        let batch_dim_idx = (if have_split_k' then 1 else 0);
        lhs_b \<leftarrow> at (lhs_batch_dimensions dims) batch_dim_idx;
        rhs_b \<leftarrow> at (rhs_batch_dimensions dims) batch_dim_idx;
        lhs_spec \<leftarrow> at (IterSpec analysis 0 lhs_b) 0;
        rhs_spec \<leftarrow> at (IterSpec analysis 1 rhs_b) 0;
        CHECK (count lhs_spec = count rhs_spec);
        Some (s32 (count lhs_spec), narrow I (stride lhs_spec), narrow I (stride rhs_spec),
              m_minor')
      } else Some (1, 0, 0, m_minor'))"

definition operand_dims ::
  "IndexT \<Rightarrow> DotFusionAnalysis \<Rightarrow> HloDotInstruction \<Rightarrow> TritonGemmKey \<Rightarrow> OperandDims option" where
  "operand_dims I analysis dot_instr config =
     (let dims = dot_dimension_numbers dot_instr in do {
        CHECK (length (lhs_contracting_dimensions dims) = 1);
        CHECK (length (rhs_contracting_dimensions dims) = 1);
        lhs_c \<leftarrow> at (lhs_contracting_dimensions dims) 0;
        rhs_c \<leftarrow> at (rhs_contracting_dimensions dims) 0;
        let have_split_k' = (split_k config > 1);
        (if have_split_k' then check_split_k_dims dot_instr config lhs_c rhs_c else Some ());
        CHECK (int (length (lhs_batch_dimensions dims)) \<le> 1 + b2i have_split_k');
        let have_batch' = (int (length (lhs_batch_dimensions dims)) - b2i have_split_k' \<noteq> 0);
        CHECK (rank (operand0 dot_instr) = 2 + b2i have_split_k' + b2i have_batch');
        lhs_nc \<leftarrow> at (GetNonContractingDims (operand0 dot_instr)
                    (lhs_batch_dimensions dims) (lhs_contracting_dimensions dims)) 0;
        rhs_nc \<leftarrow> at (GetNonContractingDims (operand1 dot_instr)
                    (rhs_batch_dimensions dims) (rhs_contracting_dimensions dims)) 0;
        lhs_nc_spec \<leftarrow> at (IterSpec analysis 0 lhs_nc) 0;
        rhs_nc_spec \<leftarrow> at (IterSpec analysis 1 rhs_nc) 0;
        let m_minor' = s32 (count lhs_nc_spec);
        let n = s32 (count rhs_nc_spec);
        lhs_k_extent \<leftarrow> at (dimensions (operand0 dot_instr)) lhs_c;
        let k = s32 (lhs_k_extent * split_k config);
        let lhs_nc_split' = (length (IterSpec analysis 0 lhs_nc) > 1);
        CHECK (int (length (IterSpec analysis 0 lhs_nc)) = 1 + b2i lhs_nc_split');
        CHECK (b2i have_batch' + b2i lhs_nc_split' \<le> 1);
        CHECK (length (IterSpec analysis 1 rhs_nc) = 1);
        CHECK (length (IterSpec analysis 0 lhs_c) = 1);
        lhs_k_spec \<leftarrow> at (IterSpec analysis 0 lhs_c) 0;
        rhs_k_spec \<leftarrow> at (IterSpec analysis 1 rhs_c) 0;
        (batch_size', stride_batch_lhs', stride_batch_rhs', m_full') \<leftarrow>
          batch_or_split I analysis dims have_split_k' have_batch' lhs_nc_split' lhs_nc m_minor';
        Some \<lparr> have_split_k = have_split_k', have_batch = have_batch',
               lhs_nc_split = lhs_nc_split', m_minor = m_minor', dim_n = n, dim_k = k,
               stride_lhs_m = narrow I (stride lhs_nc_spec),
               stride_lhs_k = narrow I (stride lhs_k_spec),
               stride_rhs_k = narrow I (stride rhs_k_spec),
               stride_rhs_n = narrow I (stride rhs_nc_spec),
               batch_size = batch_size', stride_batch_lhs = stride_batch_lhs',
               stride_batch_rhs = stride_batch_rhs', m_full = m_full' \<rparr>
      })"

section \<open>MatMulImpl: strides of the output\<close>

record OutStrides =
  stride_out_m :: int
  stride_out_n :: int
  stride_out_split_k :: int
  stride_out_batch :: int
  out_stride_size_accumulator :: int

definition rhs_nc_out_idx :: "HloDotInstruction \<Rightarrow> int" where
  "rhs_nc_out_idx dot_instr = rank (shape dot_instr) - 1"

definition lhs_nc_out_idx :: "HloDotInstruction \<Rightarrow> int" where
  "lhs_nc_out_idx dot_instr = rank (shape dot_instr) - 2"

definition split_k_out_idx :: "OperandDims \<Rightarrow> int" where
  "split_k_out_idx d = (if have_split_k d then 0 else - 1)"

definition batch_out_idx :: "OperandDims \<Rightarrow> int" where
  "batch_out_idx d = (if have_batch d then (if have_split_k d then 1 else 0) else - 1)"

text \<open>One round of the loop over the output's physical dimensions.\<close>

definition out_stride_step ::
  "IndexT \<Rightarrow> HloDotInstruction \<Rightarrow> TritonGemmKey \<Rightarrow> OperandDims \<Rightarrow> int \<Rightarrow> OutStrides \<Rightarrow>
   OutStrides option" where
  "out_stride_step I dot_instr config d logical_idx s = do {
     dim_size \<leftarrow> at (dimensions (shape dot_instr)) logical_idx;
     s' \<leftarrow>
       (if logical_idx = rhs_nc_out_idx dot_instr then do {
          CHECK (dim_size = dim_n d);
          Some (s\<lparr>stride_out_n := narrow I (out_stride_size_accumulator s)\<rparr>)
        } else if logical_idx = lhs_nc_out_idx dot_instr then do {
          CHECK (dim_size = m_full d);
          Some (if lhs_nc_split d
                then s\<lparr>stride_out_m := narrow I (out_stride_size_accumulator s),
                       stride_out_batch := narrow I (out_stride_size_accumulator s * m_minor d)\<rparr>
                else s\<lparr>stride_out_m := narrow I (out_stride_size_accumulator s)\<rparr>)
        } else if logical_idx = split_k_out_idx d then do {
          CHECK (dim_size = split_k config);
          Some (s\<lparr>stride_out_split_k := narrow I (out_stride_size_accumulator s)\<rparr>)
        } else if logical_idx = batch_out_idx d then do {
          CHECK (dim_size = batch_size d);
          Some (s\<lparr>stride_out_batch := narrow I (out_stride_size_accumulator s)\<rparr>)
        } else None);
     Some (s'\<lparr>out_stride_size_accumulator := out_stride_size_accumulator s' * dim_size\<rparr>)
   }"

fun out_stride_loop ::
  "IndexT \<Rightarrow> HloDotInstruction \<Rightarrow> TritonGemmKey \<Rightarrow> OperandDims \<Rightarrow> int list \<Rightarrow> OutStrides \<Rightarrow>
   OutStrides option" where
  "out_stride_loop I dot_instr config d [] s = Some s"
| "out_stride_loop I dot_instr config d (logical_idx # rest) s =
     (case out_stride_step I dot_instr config d logical_idx s of
        None \<Rightarrow> None
      | Some s' \<Rightarrow> out_stride_loop I dot_instr config d rest s')"

definition initial_out_strides :: OutStrides where
  "initial_out_strides =
     \<lparr> stride_out_m = 0, stride_out_n = 0, stride_out_split_k = 0, stride_out_batch = 0,
       out_stride_size_accumulator = 1 \<rparr>"

definition output_strides ::
  "IndexT \<Rightarrow> HloDotInstruction \<Rightarrow> TritonGemmKey \<Rightarrow> OperandDims \<Rightarrow> OutStrides option" where
  "output_strides I dot_instr config d = do {
     s \<leftarrow> out_stride_loop I dot_instr config d (minor_to_major (shape dot_instr))
            initial_out_strides;
     CHECK (stride_out_m s \<ge> 1);
     CHECK (stride_out_n s \<ge> 1);
     (if have_split_k d then CHECK (stride_out_split_k s > 1) else Some ());
     (if have_batch d \<or> lhs_nc_split d then CHECK (stride_out_batch s > 1) else Some ());
     Some s
   }"

section \<open>MatMulImpl: types, budget and launch geometry\<close>

text \<open>Data type to which the inputs of the dot are converted.\<close>

definition dot_ty_of :: "Type \<Rightarrow> Type \<Rightarrow> Type" where
  "dot_ty_of lhs_ty rhs_ty =
     (if lhs_ty = F32Type \<or> rhs_ty = F32Type then F32Type
      else if lhs_ty = BF16Type \<or> rhs_ty = BF16Type then BF16Type
      else if lhs_ty = F16Type \<or> rhs_ty = F16Type then F16Type
      else F32Type)"

definition acc_ty_of :: "Type \<Rightarrow> Type \<Rightarrow> Type" where
  "acc_ty_of root_ty dot_ty = (if root_ty = F64Type \<and> dot_ty = F64Type then F64Type else F32Type)"

text \<open>
  \<^verbatim>\<open>required_shmem_size\<close>: the products with the bit widths are \<^verbatim>\<open>unsigned\<close>, the product with
  \<^verbatim>\<open>num_stages\<close> and the division are 64-bit, the result is an \<^verbatim>\<open>int\<close>.
\<close>

definition required_shmem_size :: "int \<Rightarrow> int \<Rightarrow> int \<Rightarrow> Type \<Rightarrow> Type \<Rightarrow> TritonGemmKey \<Rightarrow> int" where
  "required_shmem_size blk_m blk_n blk_k lhs_ty rhs_ty config =
     s32 (tdiv (u32 (u32 (u32 (blk_m * getIntOrFloatBitWidth lhs_ty) +
                          u32 (blk_n * getIntOrFloatBitWidth rhs_ty)) * blk_k)
                * num_stages config) 8)"

definition kBlockCountYZLimit :: int where
  "kBlockCountYZLimit = 65536"

definition group_m :: int where
  "group_m = 8"

record LaunchDimensions =
  block_counts :: "int \<times> int \<times> int"
  thread_counts_per_block :: "int \<times> int \<times> int"
  shared_mem_bytes :: int

record FuncOp =
  sym_name :: string
  argument_types :: "Type list"
  divisibility :: "int list"
  blocks :: "Operation list"

definition getArgument :: "FuncOp \<Rightarrow> int \<Rightarrow> Value option" where
  "getArgument fn i =
     (if 0 \<le> i \<and> i < int (length (argument_types fn)) then Some (Argument (nat i)) else None)"

definition back_argument :: "FuncOp \<Rightarrow> Value option" where
  "back_argument fn =
     (if argument_types fn = [] then None else Some (Argument (length (argument_types fn) - 1)))"

section \<open>MatMulImpl: the emitted operations\<close>

definition build_splat :: "Value \<Rightarrow> int list \<Rightarrow> Value" where
  "build_splat v shp = SplatOp v shp"

definition build_range :: "int \<Rightarrow> Value" where
  "build_range limit = MakeRangeOp 0 limit"

definition build_bcast :: "Value \<Rightarrow> int list \<Rightarrow> Value" where
  "build_bcast v shp = BroadcastOp v shp"

definition build_addptr :: "Value \<Rightarrow> Value \<Rightarrow> Value" where
  "build_addptr ptr offset = AddPtrOp ptr offset"

text \<open>Extend int32 indexes to int64, if necessary.\<close>

definition convert_scalar :: "IndexT \<Rightarrow> Value \<Rightarrow> Value" where
  "convert_scalar I v = (case I of int64_t \<Rightarrow> ExtSIOp (int_ty I) v | int32_t \<Rightarrow> v)"

definition convert_range :: "IndexT \<Rightarrow> Value \<Rightarrow> Value" where
  "convert_range I v = (case I of int64_t \<Rightarrow> ExtSIOp (int_ty I) v | int32_t \<Rightarrow> v)"

subsection \<open>Program ids and the swizzled tile coordinates\<close>

definition pid_batch :: "bool \<Rightarrow> Value" where
  "pid_batch large_batch = GetProgramIdOp (if large_batch then DimX else DimY)"

definition pid_nc :: "bool \<Rightarrow> Value" where
  "pid_nc large_batch = GetProgramIdOp (if large_batch then DimY else DimX)"

definition pid_k :: "Value" where
  "pid_k = GetProgramIdOp DimZ"

definition group_id :: "bool \<Rightarrow> int \<Rightarrow> Value" where
  "group_id large_batch width = DivSIOp (pid_nc large_batch) (CreateConst I32Type width)"

definition group_m_op :: "Value" where
  "group_m_op = CreateConst I32Type group_m"

definition first_pid_m :: "bool \<Rightarrow> int \<Rightarrow> Value" where
  "first_pid_m large_batch width = MulIOp (group_id large_batch width) group_m_op"

definition sub0 :: "bool \<Rightarrow> int \<Rightarrow> int \<Rightarrow> Value" where
  "sub0 large_batch width grid_m =
     SubIOp (CreateConst I32Type grid_m) (first_pid_m large_batch width)"

definition group_size :: "bool \<Rightarrow> int \<Rightarrow> int \<Rightarrow> Value" where
  "group_size large_batch width grid_m =
     SelectOp (CmpIOp slt (sub0 large_batch width grid_m) group_m_op)
       (sub0 large_batch width grid_m) group_m_op"

definition pid_m :: "bool \<Rightarrow> int \<Rightarrow> int \<Rightarrow> Value" where
  "pid_m large_batch width grid_m =
     AddIOp (first_pid_m large_batch width)
       (RemSIOp (pid_nc large_batch) (group_size large_batch width grid_m))"

definition pid_n :: "bool \<Rightarrow> int \<Rightarrow> int \<Rightarrow> Value" where
  "pid_n large_batch width grid_m =
     DivSIOp (RemSIOp (pid_nc large_batch) (CreateConst I32Type width))
       (group_size large_batch width grid_m)"

subsection \<open>Address tiles, reduction loop and store\<close>

text \<open>
  The values of \<^verbatim>\<open>MatMulImpl\<close> that the emitted operations are built from. The locals
  \<^verbatim>\<open>block_m\<close>, \<^verbatim>\<open>block_k\<close> and \<^verbatim>\<open>block_n\<close> are the fields of the configuration converted
  to \<^verbatim>\<open>int\<close>; \<open>c_tf32\<close> is \<^verbatim>\<open>tsl::tensor_float_32_execution_enabled()\<close>, a setting of the
  process.
\<close>

record EmitContext =
  c_index :: IndexT
  c_dims :: OperandDims
  c_strides :: OutStrides
  c_config :: TritonGemmKey
  c_block_m :: int
  c_block_k :: int
  c_block_n :: int
  c_grid_m :: int
  c_width :: int
  c_large_batch :: bool
  c_lhs_ty :: Type
  c_rhs_ty :: Type
  c_root_ty :: Type
  c_dot_ty :: Type
  c_acc_ty :: Type
  c_lhs :: "Value"
  c_rhs :: "Value"
  c_out :: "Value"
  c_tf32 :: bool

definition shape_m_1 :: "EmitContext \<Rightarrow> int list" where "shape_m_1 c = [c_block_m c, 1]"
definition shape_1_k :: "EmitContext \<Rightarrow> int list" where "shape_1_k c = [1, c_block_k c]"
definition shape_m_k :: "EmitContext \<Rightarrow> int list" where "shape_m_k c = [c_block_m c, c_block_k c]"
definition shape_k_1 :: "EmitContext \<Rightarrow> int list" where "shape_k_1 c = [c_block_k c, 1]"
definition shape_1_n :: "EmitContext \<Rightarrow> int list" where "shape_1_n c = [1, c_block_n c]"
definition shape_k_n :: "EmitContext \<Rightarrow> int list" where "shape_k_n c = [c_block_k c, c_block_n c]"
definition shape_m_n :: "EmitContext \<Rightarrow> int list" where "shape_m_n c = [c_block_m c, c_block_n c]"

definition range_m :: "EmitContext \<Rightarrow> Value" where
  "range_m c =
     AddIOp (build_splat (MulIOp (pid_m (c_large_batch c) (c_width c) (c_grid_m c))
                            (CreateConst I32Type (c_block_m c))) [c_block_m c])
       (build_range (c_block_m c))"

definition range_n :: "EmitContext \<Rightarrow> Value" where
  "range_n c =
     AddIOp (build_splat (MulIOp (pid_n (c_large_batch c) (c_width c) (c_grid_m c))
                            (CreateConst I32Type (c_block_n c))) [c_block_n c])
       (build_range (c_block_n c))"

definition range_k :: "EmitContext \<Rightarrow> Value" where
  "range_k c =
     AddIOp (build_splat (MulIOp pid_k (CreateConst I32Type (c_block_k c))) [c_block_k c])
       (build_range (c_block_k c))"

definition lhs_ptrs_base :: "EmitContext \<Rightarrow> Value" where
  "lhs_ptrs_base c =
     (let I = c_index c;
          range_lhs_m = convert_range I
            (RemSIOp (range_m c) (CreateConstT I32Type (m_minor (c_dims c)) [c_block_m c]));
          lhs_offset_m = MulIOp (ExpandDimsOp range_lhs_m 1)
            (CreateConstT (int_ty I) (stride_lhs_m (c_dims c)) (shape_m_1 c));
          lhs_offset_k = MulIOp (ExpandDimsOp (convert_range I (range_k c)) 0)
            (CreateConstT (int_ty I) (stride_lhs_k (c_dims c)) (shape_1_k c));
          lhs_offset = AddIOp (build_bcast lhs_offset_m (shape_m_k c))
            (build_bcast lhs_offset_k (shape_m_k c));
          lhs_offset_batch = MulIOp (convert_scalar I (pid_batch (c_large_batch c)))
            (CreateConst (int_ty I) (stride_batch_lhs (c_dims c)))
      in build_addptr (build_splat (build_addptr (c_lhs c) lhs_offset_batch) (shape_m_k c))
           lhs_offset)"

definition rhs_ptrs_base :: "EmitContext \<Rightarrow> Value" where
  "rhs_ptrs_base c =
     (let I = c_index c;
          rhs_off_k = MulIOp (ExpandDimsOp (convert_range I (range_k c)) 1)
            (CreateConstT (int_ty I) (stride_rhs_k (c_dims c)) (shape_k_1 c));
          range_rhs_n = convert_range I
            (RemSIOp (range_n c) (CreateConstT I32Type (dim_n (c_dims c)) [c_block_n c]));
          rhs_offset_n = MulIOp (ExpandDimsOp range_rhs_n 0)
            (CreateConstT (int_ty I) (stride_rhs_n (c_dims c)) (shape_1_n c));
          rhs_offset = AddIOp (build_bcast rhs_off_k (shape_k_n c))
            (build_bcast rhs_offset_n (shape_k_n c));
          rhs_offset_batch = MulIOp (convert_scalar I (pid_batch (c_large_batch c)))
            (CreateConst (int_ty I) (stride_batch_rhs (c_dims c)))
      in build_addptr (build_splat (build_addptr (c_rhs c) rhs_offset_batch) (shape_k_n c))
           rhs_offset)"

definition acc_init :: "EmitContext \<Rightarrow> Value" where
  "acc_init c = CreateConstT (c_acc_ty c) 0 (shape_m_n c)"

text \<open>The step of the reduction loop, \<^verbatim>\<open>block_k * config.split_k()\<close>, a 64-bit product.\<close>

definition loop_step :: "EmitContext \<Rightarrow> int" where
  "loop_step c = c_block_k c * split_k (c_config c)"

text \<open>The condition under which the loads of the loop body are masked.\<close>

definition needs_mask :: "EmitContext \<Rightarrow> bool" where
  "needs_mask c = (trem (dim_k (c_dims c)) (loop_step c) > 0)"

definition elements_in_tile :: "EmitContext \<Rightarrow> Value" where
  "elements_in_tile c = SubIOp (CreateConst I32Type (dim_k (c_dims c))) InductionVar"

definition lhs_mask :: "EmitContext \<Rightarrow> Value option" where
  "lhs_mask c =
     (if needs_mask c
      then Some (build_bcast (CmpIOp slt (ExpandDimsOp (range_k c) 0)
                   (build_splat (elements_in_tile c) (shape_1_k c))) (shape_m_k c))
      else None)"

definition rhs_mask :: "EmitContext \<Rightarrow> Value option" where
  "rhs_mask c =
     (if needs_mask c
      then Some (build_bcast (CmpIOp slt (ExpandDimsOp (range_k c) 1)
                   (build_splat (elements_in_tile c) (shape_k_1 c))) (shape_k_n c))
      else None)"

definition zeros_like_lhs :: "EmitContext \<Rightarrow> Value option" where
  "zeros_like_lhs c =
     (if needs_mask c then Some (CreateConstT (c_lhs_ty c) 0 (shape_m_k c)) else None)"

definition zeros_like_rhs :: "EmitContext \<Rightarrow> Value option" where
  "zeros_like_rhs c =
     (if needs_mask c then Some (CreateConstT (c_rhs_ty c) 0 (shape_k_n c)) else None)"

text \<open>
  \<^verbatim>\<open>body_builder\<close>: the values that one round of the loop yields, from the induction variable
  \<open>InductionVar\<close> and the loop-carried values \<open>IterArg 0\<close> (the lhs pointers), \<open>IterArg 1\<close>
  (the rhs pointers) and \<open>IterArg 2\<close> (the accumulator). The remainder by a zero step traps.
\<close>

definition body_builder :: "EmitContext \<Rightarrow> Value list option" where
  "body_builder c = do {
     CHECK (loop_step c \<noteq> 0);
     let lhs_tile = LoadOp (IterArg 0) (lhs_mask c) (zeros_like_lhs c);
     let rhs_tile = LoadOp (IterArg 1) (rhs_mask c) (zeros_like_rhs c);
     casted_lhs_tile \<leftarrow> Cast (c_lhs_ty c) lhs_tile (c_dot_ty c);
     casted_rhs_tile \<leftarrow> Cast (c_rhs_ty c) rhs_tile (c_dot_ty c);
     let acc_next = DotOp casted_lhs_tile casted_rhs_tile (IterArg 2) (c_tf32 c);
     let lhs_ptrs_inc = build_addptr (IterArg 0)
           (CreateConstT (int_ty (c_index c)) (loop_step c * stride_lhs_k (c_dims c))
              (shape_m_k c));
     let rhs_ptrs_inc = build_addptr (IterArg 1)
           (CreateConstT (int_ty (c_index c)) (loop_step c * stride_rhs_k (c_dims c))
              (shape_k_n c));
     Some [lhs_ptrs_inc, rhs_ptrs_inc, acc_next]
   }"

definition reduction_loop :: "EmitContext \<Rightarrow> Value option" where
  "reduction_loop c = do {
     yielded \<leftarrow> body_builder c;
     Some (ForOp (ConstantIntOp 0 32) (ConstantIntOp (dim_k (c_dims c)) 32)
             (ConstantIntOp (loop_step c) 32)
             [lhs_ptrs_base c, rhs_ptrs_base c, acc_init c] yielded)
   }"

definition out_ptrs :: "EmitContext \<Rightarrow> Value" where
  "out_ptrs c =
     (let I = c_index c;
          out_offset_batch = MulIOp (convert_scalar I (pid_batch (c_large_batch c)))
            (CreateConst (int_ty I) (stride_out_batch (c_strides c)));
          out_offset_split_k = MulIOp (convert_scalar I pid_k)
            (CreateConst (int_ty I) (stride_out_split_k (c_strides c)));
          out_offset_m = MulIOp (ExpandDimsOp (convert_range I (range_m c)) 1)
            (CreateConstT (int_ty I) (stride_out_m (c_strides c)) (shape_m_1 c));
          out_ptrs_m = build_addptr
            (build_splat (build_addptr (build_addptr (c_out c) out_offset_batch)
                            out_offset_split_k) (shape_m_1 c))
            out_offset_m;
          out_offset_n = MulIOp (ExpandDimsOp (convert_range I (range_n c)) 0)
            (CreateConstT (int_ty I) (stride_out_n (c_strides c)) (shape_1_n c))
      in build_addptr (build_bcast out_ptrs_m (shape_m_n c))
           (build_bcast out_offset_n (shape_m_n c)))"

text \<open>Output tile store mask: check that the indices are within [M, N].\<close>

definition store_mask :: "EmitContext \<Rightarrow> Value" where
  "store_mask c =
     (let rm_cmp = CmpIOp slt (ExpandDimsOp (range_m c) 1)
            (CreateConstT I32Type (m_minor (c_dims c)) (shape_m_1 c));
          rn_cmp = CmpIOp slt (ExpandDimsOp (range_n c) 0)
            (CreateConstT I32Type (dim_n (c_dims c)) (shape_1_n c))
      in AndIOp (build_bcast rm_cmp (shape_m_n c)) (build_bcast rn_cmp (shape_m_n c)))"

definition emit_store :: "EmitContext \<Rightarrow> Operation option" where
  "emit_store c = do {
     loop \<leftarrow> reduction_loop c;
     let acc_final = getResult loop 2;
     casted \<leftarrow> Cast (c_acc_ty c) acc_final (c_root_ty c);
     Some (StoreOp (out_ptrs c) casted (store_mask c))
   }"

section \<open>MatMulImpl, MatMul and TritonWrapper\<close>

text \<open>
  What the emitter reads from outside this file: the warp size (\<^verbatim>\<open>WarpSize()\<close> of
  \<^verbatim>\<open>ir_emission_utils.h\<close>) and the TF32 setting of the process.
\<close>

record Env =
  WarpSize :: int
  tensor_float_32_execution_enabled :: bool

definition shmem_message :: "int \<Rightarrow> int \<Rightarrow> string" where
  "shmem_message required budget =
     ''Requires too much shared memory: '' @ format_d required @ '' > '' @ format_d budget"

definition MatMulImpl ::
  "IndexT \<Rightarrow> Env \<Rightarrow> DotFusionAnalysis \<Rightarrow> HloDotInstruction \<Rightarrow> FuncOp \<Rightarrow> TritonGemmKey \<Rightarrow> int \<Rightarrow>
   (LaunchDimensions StatusOr \<times> FuncOp) option" where
  "MatMulImpl I env analysis dot_instr fn config shmem_budget = do {
     let hlo_lhs_param = OperandToParameter analysis 0;
     let hlo_rhs_param = OperandToParameter analysis 1;
     lhs_ty \<leftarrow> TritonType (parameter_element_type hlo_lhs_param);
     rhs_ty \<leftarrow> TritonType (parameter_element_type hlo_rhs_param);
     d \<leftarrow> operand_dims I analysis dot_instr config;
     st \<leftarrow> output_strides I dot_instr config d;
     let blk_m = s32 (block_m config);
     let blk_k = s32 (block_k config);
     let blk_n = s32 (block_n config);
     CHECK (blk_m \<ge> 16);
     CHECK (blk_k \<ge> 16);
     CHECK (blk_n \<ge> 16);
     grid_m \<leftarrow> ceil_div (m_minor d) blk_m;
     grid_n \<leftarrow> ceil_div (dim_n d) blk_n;
     let width = s32 (group_m * grid_n);
     root_ty \<leftarrow> TritonType (element_type (shape dot_instr));
     let dot_ty = dot_ty_of lhs_ty rhs_ty;
     let required = required_shmem_size blk_m blk_n blk_k lhs_ty rhs_ty config;
     if required > shmem_budget
     then Some (ResourceExhausted (shmem_message required shmem_budget), fn)
     else do {
       let acc_ty = acc_ty_of root_ty dot_ty;
       lhs \<leftarrow> getArgument fn (parameter_number hlo_lhs_param);
       rhs \<leftarrow> getArgument fn (parameter_number hlo_rhs_param);
       out \<leftarrow> back_argument fn;
       let large_batch = (batch_size d \<ge> kBlockCountYZLimit);
       CHECK (s32 (s32 (batch_size d * grid_m) * grid_n)
                < kBlockCountYZLimit * kBlockCountYZLimit);
       let launch_dimensions =
         \<lparr> block_counts =
             (if large_batch then batch_size d else s32 (grid_m * grid_n),
              if large_batch then s32 (grid_m * grid_n) else batch_size d,
              split_k config),
           thread_counts_per_block = (num_warps config * WarpSize env, 1, 1),
           shared_mem_bytes = 0 \<rparr>;
       store \<leftarrow> emit_store
         \<lparr> c_index = I, c_dims = d, c_strides = st, c_config = config,
           c_block_m = blk_m, c_block_k = blk_k, c_block_n = blk_n,
           c_grid_m = grid_m, c_width = width, c_large_batch = large_batch,
           c_lhs_ty = lhs_ty, c_rhs_ty = rhs_ty, c_root_ty = root_ty,
           c_dot_ty = dot_ty, c_acc_ty = acc_ty,
           c_lhs = lhs, c_rhs = rhs, c_out = out,
           c_tf32 = tensor_float_32_execution_enabled env \<rparr>;
       Some (Ok launch_dimensions, fn\<lparr>blocks := blocks fn @ [store]\<rparr>)
     }
   }"

text \<open>
  Use 32-bit indexing if addressing any of the inputs or the output (which could grow if
  \<open>split_k\<close> is set) does not cross the \<open>INT_MAX\<close> boundary.
\<close>

definition use_64bit_indexing :: "HloDotInstruction \<Rightarrow> TritonGemmKey \<Rightarrow> bool" where
  "use_64bit_indexing dot_instr config =
     (ElementsIn (operand0 dot_instr) > INT_MAX \<or>
      ElementsIn (operand1 dot_instr) > INT_MAX \<or>
      ElementsIn (shape dot_instr) * split_k config > INT_MAX)"

definition MatMul ::
  "Env \<Rightarrow> DotFusionAnalysis \<Rightarrow> HloDotInstruction \<Rightarrow> FuncOp \<Rightarrow> TritonGemmKey \<Rightarrow> int \<Rightarrow>
   (LaunchDimensions StatusOr \<times> FuncOp) option" where
  "MatMul env analysis dot_instr fn config shmem_budget =
     (if use_64bit_indexing dot_instr config
      then MatMulImpl int64_t env analysis dot_instr fn config shmem_budget
      else MatMulImpl int32_t env analysis dot_instr fn config shmem_budget)"

datatype HloInstruction =
    HloDot HloDotInstruction
  | HloBitcast Shape HloInstruction
  | HloOther Shape

fun instruction_shape :: "HloInstruction \<Rightarrow> Shape" where
  "instruction_shape (HloDot dot_instr) = shape dot_instr"
| "instruction_shape (HloBitcast s _) = s"
| "instruction_shape (HloOther s) = s"

record HloComputation =
  root_instruction :: HloInstruction
  parameter_instructions :: "Shape list"

record GpuDeviceInfo =
  shared_memory_per_block_optin :: int

text \<open>
  The lowering of the Triton module to LLVM IR and the linker are not part of this file.
  The model is given what the wrapper asks of them: whether the module verifies, whether
  the pass pipeline succeeds, the shared memory usage that the lowered module reports
  (its attribute \<^verbatim>\<open>triton_gpu.shared\<close>) and whether the linker succeeds.
\<close>

record Lowering =
  verify_succeeded :: "FuncOp \<Rightarrow> bool"
  pipeline_succeeded :: "FuncOp \<Rightarrow> bool"
  triton_gpu_shared :: "FuncOp \<Rightarrow> int"
  link_succeeded :: "FuncOp \<Rightarrow> bool"

definition kComplexityHeuristicLimit :: int where
  "kComplexityHeuristicLimit = 9000"

text \<open>The heuristic value, a 64-bit quotient; the division traps when there are no warps.\<close>

definition complexity_heuristic_value :: "TritonGemmKey \<Rightarrow> int option" where
  "complexity_heuristic_value config =
     (if num_warps config = 0 then None
      else Some (tdiv (block_m config * block_n config +
                       (block_m config + block_n config) * block_k config)
                   (num_warps config)))"

definition complexity_message :: "int \<Rightarrow> string" where
  "complexity_message v =
     ''Tiling complexity heuristic exceeded: '' @ format_d v @ '' > '' @
     format_d kComplexityHeuristicLimit"

text \<open>The kernel function as built before the generator runs: one pointer per parameter and
  one for the output, each with the divisibility hint 16, and an empty entry block.\<close>

definition kernel_signature :: "string \<Rightarrow> HloComputation \<Rightarrow> FuncOp option" where
  "kernel_signature fn_name hlo_computation = do {
     root_ty \<leftarrow> TritonType (element_type (instruction_shape (root_instruction hlo_computation)));
     params \<leftarrow> those (map (\<lambda>p. TritonType (element_type p))
                        (parameter_instructions hlo_computation));
     let fn_arg_types = params @ [root_ty];
     Some \<lparr> sym_name = fn_name, argument_types = fn_arg_types,
            divisibility = replicate (length fn_arg_types) 16, blocks = [] \<rparr>
   }"

text \<open>
  \<^verbatim>\<open>TritonWrapper\<close>: the result and the LLVM module after the call, the list of the kernels
  linked into it. The generator is a parameter, as in the source.
\<close>

definition TritonWrapper ::
  "Lowering \<Rightarrow> string \<Rightarrow> HloComputation \<Rightarrow> GpuDeviceInfo \<Rightarrow> TritonGemmKey \<Rightarrow> FuncOp list \<Rightarrow>
   (HloDotInstruction \<Rightarrow> FuncOp \<Rightarrow> TritonGemmKey \<Rightarrow> int \<Rightarrow>
      (LaunchDimensions StatusOr \<times> FuncOp) option) \<Rightarrow>
   (LaunchDimensions StatusOr \<times> FuncOp list) option" where
  "TritonWrapper lowering fn_name hlo_computation device_info config llvm_module generator = do {
     v \<leftarrow> complexity_heuristic_value config;
     if v > kComplexityHeuristicLimit
     then Some (ResourceExhausted (complexity_message v), llvm_module)
     else do {
       let root = (case root_instruction hlo_computation of
                     HloBitcast _ inner \<Rightarrow> inner | r \<Rightarrow> r);
       dot_instr \<leftarrow> (case root of HloDot dot_instr \<Rightarrow> Some dot_instr | _ \<Rightarrow> None);
       fn \<leftarrow> kernel_signature fn_name hlo_computation;
       (status, fn') \<leftarrow>
         generator dot_instr fn config (shared_memory_per_block_optin device_info);
       case status of
         ResourceExhausted msg \<Rightarrow> Some (ResourceExhausted msg, llvm_module)
       | Ok launch_dimensions \<Rightarrow> do {
           let triton_module = fn'\<lparr>blocks := blocks fn' @ [ReturnOp]\<rparr>;
           CHECK (verify_succeeded lowering triton_module);
           CHECK (pipeline_succeeded lowering triton_module);
           let shared_mem = s32 (triton_gpu_shared lowering triton_module);
           if shared_mem > shared_memory_per_block_optin device_info
           then Some (ResourceExhausted ''Shared memory size limit exceeded.'', llvm_module)
           else do {
             CHECK (link_succeeded lowering triton_module);
             Some (Ok (launch_dimensions\<lparr>shared_mem_bytes := shared_mem\<rparr>),
                   llvm_module @ [triton_module])
           }
         }
     }
   }"

section \<open>The meaning of the emitted integer operations and of the loop\<close>

text \<open>
  The value of a scalar of type \<open>i32\<close> built from the program ids by the operations of the
  arith dialect, as the dialect defines them: addition, subtraction and multiplication wrap
  around, \<^verbatim>\<open>divsi\<close> and \<^verbatim>\<open>remsi\<close> truncate towards zero and have no value for a zero
  divisor (nor for the quotient of the least integer by \<open>-1\<close>), a comparison gives 1 or 0.
  Any other operation has no scalar \<open>i32\<close> value.
\<close>

fun eval_i32 :: "(ProgramIDDim \<Rightarrow> int) \<Rightarrow> Value \<Rightarrow> int option" where
  "eval_i32 pid (GetProgramIdOp dim) = Some (pid dim)"
| "eval_i32 pid (ConstantOp ty v) = (if ty = I32Type then Some (s32 v) else None)"
| "eval_i32 pid (DivSIOp a b) = do {
     x \<leftarrow> eval_i32 pid a;
     y \<leftarrow> eval_i32 pid b;
     if y = 0 \<or> (x = - 2147483648 \<and> y = - 1) then None else Some (tdiv x y)
   }"
| "eval_i32 pid (RemSIOp a b) = do {
     x \<leftarrow> eval_i32 pid a;
     y \<leftarrow> eval_i32 pid b;
     if y = 0 \<or> (x = - 2147483648 \<and> y = - 1) then None else Some (trem x y)
   }"
| "eval_i32 pid (MulIOp a b) = do {
     x \<leftarrow> eval_i32 pid a;
     y \<leftarrow> eval_i32 pid b;
     Some (s32 (x * y))
   }"
| "eval_i32 pid (AddIOp a b) = do {
     x \<leftarrow> eval_i32 pid a;
     y \<leftarrow> eval_i32 pid b;
     Some (s32 (x + y))
   }"
| "eval_i32 pid (SubIOp a b) = do {
     x \<leftarrow> eval_i32 pid a;
     y \<leftarrow> eval_i32 pid b;
     Some (s32 (x - y))
   }"
| "eval_i32 pid (CmpIOp slt a b) = do {
     x \<leftarrow> eval_i32 pid a;
     y \<leftarrow> eval_i32 pid b;
     Some (if x < y then 1 else 0)
   }"
| "eval_i32 pid (SelectOp c a b) = do {
     t \<leftarrow> eval_i32 pid c;
     x \<leftarrow> eval_i32 pid a;
     y \<leftarrow> eval_i32 pid b;
     Some (if t \<noteq> 0 then x else y)
   }"
| "eval_i32 pid _ = None"

text \<open>
  The values that the induction variable of an \<^verbatim>\<open>scf.for\<close> loop takes: from the lower bound,
  in steps of the (positive) step, while below the upper bound.
\<close>

function for_indices :: "int \<Rightarrow> int \<Rightarrow> int \<Rightarrow> int list" where
  "for_indices lb ub step =
     (if 0 < step \<and> lb < ub then lb # for_indices (lb + step) ub step else [])"
  by pat_completeness auto
termination
  by (relation "measure (\<lambda>(lb, ub, step). nat (ub - lb))") auto

declare for_indices.simps [simp del]


section \<open>The index type of the emitted addresses\<close>

text \<open>
  The integer element type of a value built from program ids, ranges and integer constants,
  as the operations of the arith and Triton dialects determine it: a program id and a range are
  of type \<open>i32\<close>, a constant is of its own type, the binary operations and the select need both
  operands of one type and give it to their result, \<^verbatim>\<open>extsi\<close> needs a wider integer type than
  the one of its operand, and splat, broadcast and expand-dims keep the element type. Any other
  value has no integer element type here.
\<close>

fun index_type :: "Value \<Rightarrow> Type option" where
  "index_type (GetProgramIdOp dim) = Some I32Type"
| "index_type (MakeRangeOp lo hi) = Some I32Type"
| "index_type (ConstantOp ty v) = (if isFloat ty then None else Some ty)"
| "index_type (ConstantTensorOp ty v shp) = (if isFloat ty then None else Some ty)"
| "index_type (DivSIOp a b) = (if index_type a = index_type b then index_type a else None)"
| "index_type (RemSIOp a b) = (if index_type a = index_type b then index_type a else None)"
| "index_type (MulIOp a b) = (if index_type a = index_type b then index_type a else None)"
| "index_type (AddIOp a b) = (if index_type a = index_type b then index_type a else None)"
| "index_type (SubIOp a b) = (if index_type a = index_type b then index_type a else None)"
| "index_type (SelectOp c a b) = (if index_type a = index_type b then index_type a else None)"
| "index_type (SplatOp v shp) = index_type v"
| "index_type (BroadcastOp v shp) = index_type v"
| "index_type (ExpandDimsOp v axis) = index_type v"
| "index_type (ExtSIOp ty v) =
     (case index_type v of
        None \<Rightarrow> None
      | Some src \<Rightarrow>
          if \<not> isFloat ty \<and> getIntOrFloatBitWidth src < getIntOrFloatBitWidth ty
          then Some ty else None)"
| "index_type _ = None"

text \<open>
  The offsets of all the \<^verbatim>\<open>tt.addptr\<close> operations that a value is built from: every place
  where the kernel adds an index to a pointer.
\<close>

fun addptr_offsets :: "Value \<Rightarrow> Value list" where
  "addptr_offsets (AddPtrOp ptr offset) = offset # addptr_offsets ptr @ addptr_offsets offset"
| "addptr_offsets (DivSIOp a b) = addptr_offsets a @ addptr_offsets b"
| "addptr_offsets (RemSIOp a b) = addptr_offsets a @ addptr_offsets b"
| "addptr_offsets (MulIOp a b) = addptr_offsets a @ addptr_offsets b"
| "addptr_offsets (AddIOp a b) = addptr_offsets a @ addptr_offsets b"
| "addptr_offsets (SubIOp a b) = addptr_offsets a @ addptr_offsets b"
| "addptr_offsets (AndIOp a b) = addptr_offsets a @ addptr_offsets b"
| "addptr_offsets (CmpIOp p a b) = addptr_offsets a @ addptr_offsets b"
| "addptr_offsets (SelectOp c a b) = addptr_offsets c @ addptr_offsets a @ addptr_offsets b"
| "addptr_offsets (SplatOp v shp) = addptr_offsets v"
| "addptr_offsets (BroadcastOp v shp) = addptr_offsets v"
| "addptr_offsets (ExpandDimsOp v axis) = addptr_offsets v"
| "addptr_offsets (ExtSIOp ty v) = addptr_offsets v"
| "addptr_offsets (TruncFOp ty v) = addptr_offsets v"
| "addptr_offsets (ExtFOp ty v) = addptr_offsets v"
| "addptr_offsets (SIToFPOp ty v) = addptr_offsets v"
| "addptr_offsets (FPToSIOp ty v) = addptr_offsets v"
| "addptr_offsets (LoadOp ptr msk other) =
     addptr_offsets ptr @ (case msk of None \<Rightarrow> [] | Some m \<Rightarrow> addptr_offsets m) @
     (case other of None \<Rightarrow> [] | Some v \<Rightarrow> addptr_offsets v)"
| "addptr_offsets (DotOp a b c allow_tf32) =
     addptr_offsets a @ addptr_offsets b @ addptr_offsets c"
| "addptr_offsets (ForOp lb ub step inits yielded) =
     addptr_offsets lb @ addptr_offsets ub @ addptr_offsets step @
     concat (map addptr_offsets inits) @ concat (map addptr_offsets yielded)"
| "addptr_offsets (getResult v i) = addptr_offsets v"
| "addptr_offsets _ = []"

text \<open>The index types of the offsets of all the addresses of one operation of the kernel.\<close>

definition offset_types :: "Operation \<Rightarrow> Type option list" where
  "offset_types op =
     (case op of
        StoreOp ptrs v msk \<Rightarrow>
          map index_type (addptr_offsets ptrs @ addptr_offsets v @ addptr_offsets msk)
      | ReturnOp \<Rightarrow> [])"

section \<open>Example operations\<close>

text \<open>
  A plain product \<open>[m, k] \<times> [k, n]\<close> and a batched one \<open>[b, m, k] \<times> [b, k, n]\<close>, both
  row-major, with the iteration specifications of their dimensions; a configuration; the
  kernel function of two parameters and one output; a lowering that succeeds and reports a
  given shared memory usage.
\<close>

definition row_major_dot :: "PrimitiveType \<Rightarrow> PrimitiveType \<Rightarrow> int \<Rightarrow> int \<Rightarrow> int \<Rightarrow> HloDotInstruction" where
  "row_major_dot ty out_ty m k n =
     \<lparr> operand0 = \<lparr> element_type = ty, dimensions = [m, k], minor_to_major = [1, 0] \<rparr>,
       operand1 = \<lparr> element_type = ty, dimensions = [k, n], minor_to_major = [1, 0] \<rparr>,
       shape = \<lparr> element_type = out_ty, dimensions = [m, n], minor_to_major = [1, 0] \<rparr>,
       dot_dimension_numbers =
         \<lparr> lhs_contracting_dimensions = [1], rhs_contracting_dimensions = [0],
           lhs_batch_dimensions = [], rhs_batch_dimensions = [] \<rparr> \<rparr>"

definition row_major_analysis :: "PrimitiveType \<Rightarrow> int \<Rightarrow> int \<Rightarrow> int \<Rightarrow> DotFusionAnalysis" where
  "row_major_analysis ty m k n =
     \<lparr> IterSpec = (\<lambda>operand dim.
          if operand = 0
          then (if dim = 0 then [\<lparr> stride = k, count = m \<rparr>] else [\<lparr> stride = 1, count = k \<rparr>])
          else (if dim = 0 then [\<lparr> stride = n, count = k \<rparr>] else [\<lparr> stride = 1, count = n \<rparr>])),
       OperandToParameter = (\<lambda>operand.
          \<lparr> parameter_element_type = ty, parameter_number = int operand \<rparr>) \<rparr>"

definition batched_dot :: "PrimitiveType \<Rightarrow> int \<Rightarrow> int \<Rightarrow> int \<Rightarrow> int \<Rightarrow> HloDotInstruction" where
  "batched_dot ty b m k n =
     \<lparr> operand0 = \<lparr> element_type = ty, dimensions = [b, m, k], minor_to_major = [2, 1, 0] \<rparr>,
       operand1 = \<lparr> element_type = ty, dimensions = [b, k, n], minor_to_major = [2, 1, 0] \<rparr>,
       shape = \<lparr> element_type = ty, dimensions = [b, m, n], minor_to_major = [2, 1, 0] \<rparr>,
       dot_dimension_numbers =
         \<lparr> lhs_contracting_dimensions = [2], rhs_contracting_dimensions = [1],
           lhs_batch_dimensions = [0], rhs_batch_dimensions = [0] \<rparr> \<rparr>"

definition batched_analysis :: "PrimitiveType \<Rightarrow> int \<Rightarrow> int \<Rightarrow> int \<Rightarrow> int \<Rightarrow> DotFusionAnalysis" where
  "batched_analysis ty b m k n =
     \<lparr> IterSpec = (\<lambda>operand dim.
          if operand = 0
          then (if dim = 0 then [\<lparr> stride = m * k, count = b \<rparr>]
                else if dim = 1 then [\<lparr> stride = k, count = m \<rparr>]
                else [\<lparr> stride = 1, count = k \<rparr>])
          else (if dim = 0 then [\<lparr> stride = k * n, count = b \<rparr>]
                else if dim = 1 then [\<lparr> stride = n, count = k \<rparr>]
                else [\<lparr> stride = 1, count = n \<rparr>])),
       OperandToParameter = (\<lambda>operand.
          \<lparr> parameter_element_type = ty, parameter_number = int operand \<rparr>) \<rparr>"

definition example_config :: "int \<Rightarrow> int \<Rightarrow> int \<Rightarrow> int \<Rightarrow> TritonGemmKey" where
  "example_config bm bn bk warps =
     \<lparr> block_m = bm, block_n = bn, block_k = bk, split_k = 1, num_stages = 2,
       num_warps = warps \<rparr>"

definition example_fn :: "Type \<Rightarrow> FuncOp" where
  "example_fn ty =
     \<lparr> sym_name = ''triton_gemm'', argument_types = [ty, ty, ty],
       divisibility = [16, 16, 16], blocks = [] \<rparr>"

definition example_env :: Env where
  "example_env = \<lparr> WarpSize = 32, tensor_float_32_execution_enabled = True \<rparr>"

definition example_lowering :: "int \<Rightarrow> Lowering" where
  "example_lowering shared =
     \<lparr> verify_succeeded = (\<lambda>_. True), pipeline_succeeded = (\<lambda>_. True),
       triton_gpu_shared = (\<lambda>_. shared), link_succeeded = (\<lambda>_. True) \<rparr>"

definition example_computation :: "PrimitiveType \<Rightarrow> int \<Rightarrow> int \<Rightarrow> int \<Rightarrow> HloComputation" where
  "example_computation ty m k n =
     \<lparr> root_instruction = HloDot (row_major_dot ty ty m k n),
       parameter_instructions = [operand0 (row_major_dot ty ty m k n),
                                 operand1 (row_major_dot ty ty m k n)] \<rparr>"

text \<open>What the analysis of the operands and of the output computes for the plain product.\<close>

definition example_operand_dims :: OperandDims where
  "example_operand_dims =
     \<lparr> have_split_k = False, have_batch = False, lhs_nc_split = False, m_minor = 70,
       dim_n = 48, dim_k = 100, stride_lhs_m = 100, stride_lhs_k = 1, stride_rhs_k = 48,
       stride_rhs_n = 1, batch_size = 1, stride_batch_lhs = 0, stride_batch_rhs = 0,
       m_full = 70 \<rparr>"

definition example_out_strides :: OutStrides where
  "example_out_strides =
     \<lparr> stride_out_m = 48, stride_out_n = 1, stride_out_split_k = 0, stride_out_batch = 0,
       out_stride_size_accumulator = 3360 \<rparr>"


section \<open>Auxiliary facts\<close>

lemma CHECK_Some [simp]: "(CHECK c = Some u) = c"
  by (simp add: CHECK_def)

lemma CHECK_None [simp]: "(CHECK c = None) = (\<not> c)"
  by (simp add: CHECK_def)

lemma CHECK_True [simp]: "CHECK True = Some ()"
  by (simp add: CHECK_def)

lemma s32_id: "- 2147483648 \<le> x \<Longrightarrow> x \<le> 2147483647 \<Longrightarrow> s32 x = x"
  by (simp add: s32_def)

lemma s32_range: "- 2147483648 \<le> s32 x \<and> s32 x \<le> 2147483647"
proof -
  have "0 \<le> (x + 2147483648) mod 4294967296" "(x + 2147483648) mod 4294967296 < 4294967296"
    by simp_all
  then show ?thesis unfolding s32_def by linarith
qed

lemma u32_id: "0 \<le> x \<Longrightarrow> x < 4294967296 \<Longrightarrow> u32 x = x"
  by (simp add: u32_def)

lemma tdiv_nonneg: "0 \<le> a \<Longrightarrow> 0 < b \<Longrightarrow> tdiv a b = a div b"
  by (simp add: tdiv_def sgn_if)

lemma trem_nonneg: "0 \<le> a \<Longrightarrow> 0 < b \<Longrightarrow> trem a b = a mod b"
  by (simp add: trem_def tdiv_nonneg minus_mult_div_eq_mod)

text \<open>What a successful run of \<^verbatim>\<open>MatMulImpl\<close> went through.\<close>

lemma MatMulImpl_OkE:
  assumes "MatMulImpl I env analysis dot_instr fn config shmem_budget = Some (Ok ld, fn')"
  obtains lhs_ty rhs_ty d st grid_m grid_n root_ty lhs rhs out store where
    "TritonType (parameter_element_type (OperandToParameter analysis 0)) = Some lhs_ty"
    "TritonType (parameter_element_type (OperandToParameter analysis 1)) = Some rhs_ty"
    "operand_dims I analysis dot_instr config = Some d"
    "output_strides I dot_instr config d = Some st"
    "s32 (block_m config) \<ge> 16" "s32 (block_k config) \<ge> 16" "s32 (block_n config) \<ge> 16"
    "ceil_div (m_minor d) (s32 (block_m config)) = Some grid_m"
    "ceil_div (dim_n d) (s32 (block_n config)) = Some grid_n"
    "TritonType (element_type (shape dot_instr)) = Some root_ty"
    "required_shmem_size (s32 (block_m config)) (s32 (block_n config)) (s32 (block_k config))
       lhs_ty rhs_ty config \<le> shmem_budget"
    "getArgument fn (parameter_number (OperandToParameter analysis 0)) = Some lhs"
    "getArgument fn (parameter_number (OperandToParameter analysis 1)) = Some rhs"
    "back_argument fn = Some out"
    "ld = \<lparr> block_counts =
             (if batch_size d \<ge> kBlockCountYZLimit then batch_size d else s32 (grid_m * grid_n),
              if batch_size d \<ge> kBlockCountYZLimit then s32 (grid_m * grid_n) else batch_size d,
              split_k config),
           thread_counts_per_block = (num_warps config * WarpSize env, 1, 1),
           shared_mem_bytes = 0 \<rparr>"
    "emit_store
         \<lparr> c_index = I, c_dims = d, c_strides = st, c_config = config,
           c_block_m = s32 (block_m config), c_block_k = s32 (block_k config),
           c_block_n = s32 (block_n config),
           c_grid_m = grid_m, c_width = s32 (group_m * grid_n),
           c_large_batch = (batch_size d \<ge> kBlockCountYZLimit),
           c_lhs_ty = lhs_ty, c_rhs_ty = rhs_ty, c_root_ty = root_ty,
           c_dot_ty = dot_ty_of lhs_ty rhs_ty,
           c_acc_ty = acc_ty_of root_ty (dot_ty_of lhs_ty rhs_ty),
           c_lhs = lhs, c_rhs = rhs, c_out = out,
           c_tf32 = tensor_float_32_execution_enabled env \<rparr> = Some store"
    "fn' = fn\<lparr>blocks := blocks fn @ [store]\<rparr>"
  using assms unfolding MatMulImpl_def Let_def
  by (auto simp: bind_eq_Some_conv split: if_splits)

text \<open>What a successful run of \<^verbatim>\<open>TritonWrapper\<close> went through.\<close>

lemma TritonWrapper_OkE:
  assumes "TritonWrapper lowering fn_name hlo_computation device_info config llvm_module
             generator = Some (Ok ld, llvm_module')"
  obtains dot_instr fn ld0 fn' where
    "kernel_signature fn_name hlo_computation = Some fn"
    "generator dot_instr fn config (shared_memory_per_block_optin device_info)
       = Some (Ok ld0, fn')"
    "ld = ld0\<lparr>shared_mem_bytes :=
             s32 (triton_gpu_shared lowering (fn'\<lparr>blocks := blocks fn' @ [ReturnOp]\<rparr>))\<rparr>"
    "s32 (triton_gpu_shared lowering (fn'\<lparr>blocks := blocks fn' @ [ReturnOp]\<rparr>))
       \<le> shared_memory_per_block_optin device_info"
    "llvm_module' = llvm_module @ [fn'\<lparr>blocks := blocks fn' @ [ReturnOp]\<rparr>]"
proof -
  from assms obtain dot_instr fn status fn' where
    g: "kernel_signature fn_name hlo_computation = Some fn"
       "generator dot_instr fn config (shared_memory_per_block_optin device_info)
          = Some (status, fn')"
    and r: "(case status of
         ResourceExhausted msg \<Rightarrow> Some (ResourceExhausted msg, llvm_module)
       | Ok launch_dimensions \<Rightarrow> do {
           let triton_module = fn'\<lparr>blocks := blocks fn' @ [ReturnOp]\<rparr>;
           CHECK (verify_succeeded lowering triton_module);
           CHECK (pipeline_succeeded lowering triton_module);
           let shared_mem = s32 (triton_gpu_shared lowering triton_module);
           if shared_mem > shared_memory_per_block_optin device_info
           then Some (ResourceExhausted ''Shared memory size limit exceeded.'', llvm_module)
           else do {
             CHECK (link_succeeded lowering triton_module);
             Some (Ok (launch_dimensions\<lparr>shared_mem_bytes := shared_mem\<rparr>),
                   llvm_module @ [triton_module])
           }
         }) = Some (Ok ld, llvm_module')"
    unfolding TritonWrapper_def Let_def
    by (auto simp: bind_eq_Some_conv split: if_splits)
  from r obtain ld0 where s: "status = Ok ld0"
    by (cases status) simp_all
  from r s show thesis
    by (intro that [OF g(1) g(2) [unfolded s]])
       (auto simp: Let_def bind_eq_Some_conv split: if_splits)
qed

lemma MatMul_cases:
  obtains I where
    "MatMul env analysis dot_instr fn config shmem_budget
       = MatMulImpl I env analysis dot_instr fn config shmem_budget"
  by (cases "use_64bit_indexing dot_instr config") (simp_all add: MatMul_def)

lemma format_d_examples:
  "format_d 24576 = ''24576''" "format_d 9000 = ''9000''"
  "format_d 6144 = ''6144''" "format_d 1000 = ''1000''"
  by (simp_all add: format_d_def decimal.simps digit_def)

text \<open>The plain product of the examples, lowered with 32-bit indexes.\<close>

lemma example_MatMulImpl:
  "map_option fst (MatMulImpl int32_t example_env (row_major_analysis F16 70 100 48)
      (row_major_dot F16 F16 70 100 48) (example_fn F16Type) (example_config 32 16 32 4) 100000)
   = Some (Ok \<lparr> block_counts = (9, 1, 1), thread_counts_per_block = (128, 1, 1),
               shared_mem_bytes = 0 \<rparr>)"
  by code_simp

lemma example_TritonWrapper:
  "map_option fst (TritonWrapper (example_lowering 4096) ''triton_gemm''
      (example_computation F16 70 100 48) \<lparr> shared_memory_per_block_optin = 100000 \<rparr>
      (example_config 32 16 32 4) []
      (MatMul example_env (row_major_analysis F16 70 100 48)))
   = Some (Ok \<lparr> block_counts = (9, 1, 1), thread_counts_per_block = (128, 1, 1),
               shared_mem_bytes = 4096 \<rparr>)"
  by code_simp

lemma emit_store_SomeE:
  assumes "emit_store c = Some store"
  obtains l r v where
    "loop_step c \<noteq> 0"
    "Cast (c_lhs_ty c) (LoadOp (IterArg 0) (lhs_mask c) (zeros_like_lhs c)) (c_dot_ty c) = Some l"
    "Cast (c_rhs_ty c) (LoadOp (IterArg 1) (rhs_mask c) (zeros_like_rhs c)) (c_dot_ty c) = Some r"
    "Cast (c_acc_ty c)
       (getResult
          (ForOp (ConstantIntOp 0 32) (ConstantIntOp (dim_k (c_dims c)) 32)
             (ConstantIntOp (loop_step c) 32)
             [lhs_ptrs_base c, rhs_ptrs_base c, acc_init c]
             [build_addptr (IterArg 0)
                (CreateConstT (int_ty (c_index c)) (loop_step c * stride_lhs_k (c_dims c))
                   (shape_m_k c)),
              build_addptr (IterArg 1)
                (CreateConstT (int_ty (c_index c)) (loop_step c * stride_rhs_k (c_dims c))
                   (shape_k_n c)),
              DotOp l r (IterArg 2) (c_tf32 c)]) 2)
       (c_root_ty c) = Some v"
    "store = StoreOp (out_ptrs c) v (store_mask c)"
  using assms unfolding emit_store_def reduction_loop_def body_builder_def Let_def
  by (auto simp: bind_eq_Some_conv split: if_splits)

lemma dot_ty_of_not_F64: "dot_ty_of lhs_ty rhs_ty \<noteq> F64Type"
  by (simp add: dot_ty_of_def)

lemma required_shmem_size_exact:
  assumes "0 \<le> blk_m" "0 \<le> blk_n" "0 \<le> blk_k" "0 \<le> num_stages config"
    and "(blk_m * getIntOrFloatBitWidth lhs_ty + blk_n * getIntOrFloatBitWidth rhs_ty) * blk_k
           < 4294967296"
    and "(blk_m * getIntOrFloatBitWidth lhs_ty + blk_n * getIntOrFloatBitWidth rhs_ty) * blk_k
           * num_stages config div 8 \<le> 2147483647"
  shows "required_shmem_size blk_m blk_n blk_k lhs_ty rhs_ty config
           = (blk_m * getIntOrFloatBitWidth lhs_ty + blk_n * getIntOrFloatBitWidth rhs_ty) * blk_k
               * num_stages config div 8"
proof -
  let ?l = "blk_m * getIntOrFloatBitWidth lhs_ty"
  let ?r = "blk_n * getIntOrFloatBitWidth rhs_ty"
  have w: "0 < getIntOrFloatBitWidth lhs_ty" "0 < getIntOrFloatBitWidth rhs_ty"
    by (cases lhs_ty; simp) (cases rhs_ty; simp)
  with assms have p: "0 \<le> ?l" "0 \<le> ?r" by simp_all
  show ?thesis
  proof (cases "blk_k = 0")
    case True
    then show ?thesis by (simp add: required_shmem_size_def u32_def tdiv_def s32_def)
  next
    case False
    with assms have k: "1 \<le> blk_k" by simp
    from p k have "?l + ?r \<le> (?l + ?r) * blk_k"
      by (simp add: mult_le_cancel_left1)
    with assms(5) have s: "?l + ?r < 4294967296" by linarith
    with p have "u32 ?l = ?l" "u32 ?r = ?r" by (simp_all add: u32_id)
    moreover from s p have "u32 (?l + ?r) = ?l + ?r" by (simp add: u32_id)
    moreover from p assms have "u32 ((?l + ?r) * blk_k) = (?l + ?r) * blk_k"
      by (simp add: u32_id)
    moreover from p assms have n: "0 \<le> (?l + ?r) * blk_k * num_stages config" by simp
    then have "0 \<le> (?l + ?r) * blk_k * num_stages config div 8"
      by (simp add: pos_imp_zdiv_nonneg_iff)
    ultimately show ?thesis
      using n assms(6) by (simp add: required_shmem_size_def tdiv_nonneg s32_id)
  qed
qed

text \<open>
  The product that the check of the grid size compares with \<open>65536\<^sup>2\<close> is an \<^verbatim>\<open>int\<close>, so
  it is below \<open>2\<^sup>3\<^sup>1\<close> whatever its factors are: once the check is reached, it passes.
\<close>

lemma grid_check_never_fails:
  "s32 (s32 (b * grid_m) * grid_n) < kBlockCountYZLimit * kBlockCountYZLimit"
  using s32_range [of "s32 (b * grid_m) * grid_n"] by (simp add: kBlockCountYZLimit_def)

text \<open>The batched product of the examples, with 70000, with 100 and with 65536 batches.\<close>

lemma example_batched:
  "map_option fst (MatMulImpl int32_t example_env (batched_analysis F16 70000 80 32 48)
      (batched_dot F16 70000 80 32 48) (example_fn F16Type) (example_config 16 16 32 4) 100000)
   = Some (Ok \<lparr> block_counts = (70000, 15, 1), thread_counts_per_block = (128, 1, 1),
               shared_mem_bytes = 0 \<rparr>)"
  by code_simp

lemma example_small_batch:
  "map_option fst (MatMulImpl int32_t example_env (batched_analysis F16 100 80 32 48)
      (batched_dot F16 100 80 32 48) (example_fn F16Type) (example_config 16 16 32 4) 100000)
   = Some (Ok \<lparr> block_counts = (15, 100, 1), thread_counts_per_block = (128, 1, 1),
               shared_mem_bytes = 0 \<rparr>)"
  by code_simp

lemma example_grid_overflow_dims:
  "map_option (\<lambda>d. (batch_size d, m_minor d, dim_n d))
     (operand_dims int64_t (batched_analysis F16 65536 4096 32 4096)
        (batched_dot F16 65536 4096 32 4096) (example_config 16 16 32 4))
   = Some (65536, 4096, 4096)"
  by code_simp

lemma MatMulImpl_shmem_exhausted:
  assumes "TritonType (parameter_element_type (OperandToParameter analysis 0)) = Some lhs_ty"
    and "TritonType (parameter_element_type (OperandToParameter analysis 1)) = Some rhs_ty"
    and "operand_dims I analysis dot_instr config = Some d"
    and "output_strides I dot_instr config d = Some st"
    and "16 \<le> s32 (block_m config)" "16 \<le> s32 (block_k config)" "16 \<le> s32 (block_n config)"
    and "TritonType (element_type (shape dot_instr)) = Some root_ty"
    and "shmem_budget < required_shmem_size (s32 (block_m config)) (s32 (block_n config))
           (s32 (block_k config)) lhs_ty rhs_ty config"
  shows "MatMulImpl I env analysis dot_instr fn config shmem_budget
           = Some (ResourceExhausted
                     (shmem_message
                        (required_shmem_size (s32 (block_m config)) (s32 (block_n config))
                           (s32 (block_k config)) lhs_ty rhs_ty config) shmem_budget), fn)"
proof -
  from assms(5,7) have "s32 (block_m config) \<noteq> 0" "s32 (block_n config) \<noteq> 0" by simp_all
  with assms show ?thesis
    unfolding MatMulImpl_def Let_def by (simp add: ceil_div_def)
qed

lemma TritonWrapper_generator_exhausted:
  assumes "complexity_heuristic_value config = Some v" "v \<le> 9000"
    and "root_instruction hlo_computation = HloDot dot_instr \<or>
         root_instruction hlo_computation = HloBitcast bitcast_shape (HloDot dot_instr)"
    and "kernel_signature fn_name hlo_computation = Some fn"
    and "generator dot_instr fn config (shared_memory_per_block_optin device_info)
           = Some (ResourceExhausted msg, fn')"
  shows "TritonWrapper lowering fn_name hlo_computation device_info config llvm_module generator
           = Some (ResourceExhausted msg, llvm_module)"
  using assms unfolding TritonWrapper_def Let_def
  by (auto simp: kComplexityHeuristicLimit_def)

lemma TritonWrapper_measured_exhausted:
  assumes "complexity_heuristic_value config = Some v" "v \<le> 9000"
    and "root_instruction hlo_computation = HloDot dot_instr \<or>
         root_instruction hlo_computation = HloBitcast bitcast_shape (HloDot dot_instr)"
    and "kernel_signature fn_name hlo_computation = Some fn"
    and "generator dot_instr fn config (shared_memory_per_block_optin device_info)
           = Some (Ok ld, fn')"
    and "verify_succeeded lowering (fn'\<lparr>blocks := blocks fn' @ [ReturnOp]\<rparr>)"
    and "pipeline_succeeded lowering (fn'\<lparr>blocks := blocks fn' @ [ReturnOp]\<rparr>)"
    and "shared_memory_per_block_optin device_info
           < s32 (triton_gpu_shared lowering (fn'\<lparr>blocks := blocks fn' @ [ReturnOp]\<rparr>))"
  shows "TritonWrapper lowering fn_name hlo_computation device_info config llvm_module generator
           = Some (ResourceExhausted ''Shared memory size limit exceeded.'', llvm_module)"
  using assms unfolding TritonWrapper_def Let_def
  by (auto simp: kComplexityHeuristicLimit_def)

lemma example_dims:
  "operand_dims int32_t (row_major_analysis F16 70 100 48) (row_major_dot F16 F16 70 100 48)
     (example_config 32 16 32 4) = Some example_operand_dims"
  by code_simp

lemma example_strides:
  "output_strides int32_t (row_major_dot F16 F16 70 100 48) (example_config 32 16 32 4)
     example_operand_dims = Some example_out_strides"
  by code_simp

lemma example_required_shmem_size:
  "required_shmem_size 32 16 32 F16Type F16Type (example_config 32 16 32 4) = 6144"
  by (simp add: required_shmem_size_def u32_def s32_def tdiv_def example_config_def)

lemma example_shmem_exhausted:
  "MatMulImpl int32_t example_env (row_major_analysis F16 70 100 48)
      (row_major_dot F16 F16 70 100 48) (example_fn F16Type) (example_config 32 16 32 4) 1000
   = Some (ResourceExhausted ''Requires too much shared memory: 6144 > 1000'',
           example_fn F16Type)"
proof -
  have b: "s32 32 = 32" "s32 16 = 16"
    by (simp_all add: s32_def)
  have "MatMulImpl int32_t example_env (row_major_analysis F16 70 100 48)
      (row_major_dot F16 F16 70 100 48) (example_fn F16Type) (example_config 32 16 32 4) 1000
   = Some (ResourceExhausted
             (shmem_message
                (required_shmem_size (s32 (block_m (example_config 32 16 32 4)))
                   (s32 (block_n (example_config 32 16 32 4)))
                   (s32 (block_k (example_config 32 16 32 4))) F16Type F16Type
                   (example_config 32 16 32 4)) 1000), example_fn F16Type)"
    by (rule MatMulImpl_shmem_exhausted [OF _ _ example_dims example_strides, where root_ty = F16Type])
       (simp_all add: row_major_analysis_def row_major_dot_def example_config_def s32_def
          required_shmem_size_def u32_def tdiv_def)
  moreover have "block_m (example_config 32 16 32 4) = 32"
    "block_n (example_config 32 16 32 4) = 16" "block_k (example_config 32 16 32 4) = 32"
    by (simp_all add: example_config_def)
  ultimately show ?thesis
    by (simp add: b example_required_shmem_size shmem_message_def format_d_examples)
qed

lemma example_kernel_signature:
  "kernel_signature ''triton_gemm'' (example_computation F16 70 100 48) = Some (example_fn F16Type)"
  by (simp add: kernel_signature_def example_computation_def row_major_dot_def example_fn_def)

lemma example_root:
  "root_instruction (example_computation ty m k n) = HloDot (row_major_dot ty ty m k n)"
  by (simp add: example_computation_def)

lemma example_MatMul:
  "MatMul example_env (row_major_analysis F16 70 100 48) (row_major_dot F16 F16 70 100 48) fn
     (example_config 32 16 32 4) budget
   = MatMulImpl int32_t example_env (row_major_analysis F16 70 100 48)
       (row_major_dot F16 F16 70 100 48) fn (example_config 32 16 32 4) budget"
  by (simp add: MatMul_def use_64bit_indexing_def ElementsIn_def INT_MAX_def row_major_dot_def
      example_config_def)

lemma example_complexity:
  "complexity_heuristic_value (example_config 32 16 32 4) = Some 512"
  by (simp add: complexity_heuristic_value_def example_config_def tdiv_def)

text \<open>Arithmetic of the swizzled decoding of the fused tile index.\<close>

lemma int_div_less:
  fixes a b c :: int
  assumes "0 < b" "a < c * b"
  shows "a div b < c"
proof -
  have "a div b * b + a mod b = a" by simp
  moreover have "0 \<le> a mod b" using assms by simp
  ultimately have "a div b * b < c * b" using assms by linarith
  with assms show ?thesis by (simp add: mult_less_cancel_right_pos)
qed

lemma swizzle_arith:
  fixes gm gn p :: int
  assumes "0 < gm" "0 < gn" "0 \<le> p" "p < gm * gn"
  defines "gid \<equiv> p div (8 * gn)"
  defines "g \<equiv> min (gm - 8 * gid) 8"
  shows "0 \<le> gid" "8 * gid < gm" "1 \<le> g" "g \<le> 8"
    "8 * gid + p mod g < gm" "0 \<le> p mod g"
    "0 \<le> p mod (8 * gn) div g" "p mod (8 * gn) div g < gn"
proof -
  show gid0: "0 \<le> gid"
    using assms by (simp add: gid_def pos_imp_zdiv_nonneg_iff)
  have "p div gn < gm"
    using assms by (intro int_div_less) simp_all
  moreover have "gid = (p div gn) div 8"
    using assms by (simp add: gid_def zdiv_zmult2_eq mult.commute)
  ultimately show lt: "8 * gid < gm"
    by linarith
  then show g1: "1 \<le> g" by (simp add: g_def)
  show "g \<le> 8" by (simp add: g_def)
  from g1 have gp: "0 < g" by simp
  then have "p mod g < g" "0 \<le> p mod g" by simp_all
  then show "8 * gid + p mod g < gm" "0 \<le> p mod g"
    by (simp_all add: g_def)
  have m0: "0 \<le> p mod (8 * gn)" using assms by simp
  with gp show "0 \<le> p mod (8 * gn) div g"
    by (simp add: pos_imp_zdiv_nonneg_iff)
  have "p mod (8 * gn) < g * gn"
  proof (cases "gm - 8 * gid < 8")
    case True
    then have g: "g = gm - 8 * gid" by (simp add: g_def)
    have "p mod (8 * gn) = p - gid * (8 * gn)"
      by (simp add: gid_def minus_div_mult_eq_mod)
    also have "\<dots> < gm * gn - gid * (8 * gn)" using assms by simp
    also have "\<dots> = g * gn" by (simp add: g algebra_simps)
    finally show ?thesis .
  next
    case False
    then have "g = 8" by (simp add: g_def)
    moreover have "p mod (8 * gn) < 8 * gn" using assms by simp
    ultimately show ?thesis by simp
  qed
  with gp show "p mod (8 * gn) div g < gn"
    by (intro int_div_less) (simp_all add: mult.commute)
qed

lemma ceil_div_bounds:
  assumes "ceil_div a b = Some g" "16 \<le> b" "0 < a" "a \<le> INT_MAX"
  shows "0 < g" "8 * g \<le> INT_MAX"
proof -
  from assms have g: "g = - ((- a) div b)" and b: "0 < b"
    by (simp_all add: ceil_div_def split: if_splits)
  from assms b have "(- a) div b < 0"
    by (simp add: pos_imp_zdiv_neg_iff)
  with g show "0 < g" by simp
  have "- a - (b - 1) \<le> (- a) div b * b"
  proof -
    have "(- a) div b * b + (- a) mod b = - a" by simp
    moreover have "(- a) mod b < b" using b by simp
    ultimately show ?thesis by linarith
  qed
  then have "g * b \<le> a + b - 1"
    by (simp add: g algebra_simps)
  moreover from \<open>0 < g\<close> assms have "g * 16 \<le> g * b"
    by (simp add: mult_left_mono)
  ultimately have "16 * g \<le> a + b - 1" by linarith
  moreover have "g * b \<le> a + b - 1" by fact
  ultimately show "8 * g \<le> INT_MAX"
  proof (cases "g = 1")
    case True
    then show ?thesis by (simp add: INT_MAX_def)
  next
    case False
    with \<open>0 < g\<close> have "2 \<le> g" by simp
    then have "2 * b \<le> g * b" using b by (simp add: mult_right_mono)
    with \<open>g * b \<le> a + b - 1\<close> have "b \<le> a - 1" by linarith
    with \<open>16 * g \<le> a + b - 1\<close> assms(4) show ?thesis
      by (simp add: INT_MAX_def)
  qed
qed

lemma eval_DivSIOp:
  "eval_i32 pid a = Some x \<Longrightarrow> eval_i32 pid b = Some y \<Longrightarrow> 0 \<le> x \<Longrightarrow> 0 < y \<Longrightarrow>
   eval_i32 pid (DivSIOp a b) = Some (x div y)"
  by (simp add: tdiv_nonneg)

lemma eval_RemSIOp:
  "eval_i32 pid a = Some x \<Longrightarrow> eval_i32 pid b = Some y \<Longrightarrow> 0 \<le> x \<Longrightarrow> 0 < y \<Longrightarrow>
   eval_i32 pid (RemSIOp a b) = Some (x mod y)"
  by (simp add: trem_nonneg)

lemma eval_MulIOp:
  "eval_i32 pid a = Some x \<Longrightarrow> eval_i32 pid b = Some y \<Longrightarrow>
   - 2147483648 \<le> x * y \<Longrightarrow> x * y \<le> 2147483647 \<Longrightarrow>
   eval_i32 pid (MulIOp a b) = Some (x * y)"
  by (simp add: s32_id)

lemma eval_AddIOp:
  "eval_i32 pid a = Some x \<Longrightarrow> eval_i32 pid b = Some y \<Longrightarrow>
   - 2147483648 \<le> x + y \<Longrightarrow> x + y \<le> 2147483647 \<Longrightarrow>
   eval_i32 pid (AddIOp a b) = Some (x + y)"
  by (simp add: s32_id)

lemma eval_SubIOp:
  "eval_i32 pid a = Some x \<Longrightarrow> eval_i32 pid b = Some y \<Longrightarrow>
   - 2147483648 \<le> x - y \<Longrightarrow> x - y \<le> 2147483647 \<Longrightarrow>
   eval_i32 pid (SubIOp a b) = Some (x - y)"
  by (simp add: s32_id)

lemma eval_select_min:
  "eval_i32 pid a = Some x \<Longrightarrow> eval_i32 pid b = Some y \<Longrightarrow>
   eval_i32 pid (SelectOp (CmpIOp slt a b) a b) = Some (min x y)"
  by (simp add: min_def)

lemma eval_CreateConst:
  "- 2147483648 \<le> v \<Longrightarrow> v \<le> 2147483647 \<Longrightarrow> eval_i32 pid (CreateConst I32Type v) = Some v"
  by (simp add: CreateConst_def s32_id)


lemma operand_dims_k:
  assumes "operand_dims I analysis dot_instr config = Some d"
  obtains c extent where
    "lhs_contracting_dimensions (dot_dimension_numbers dot_instr) = [c]"
    "at (dimensions (operand0 dot_instr)) c = Some extent"
    "dim_k d = s32 (extent * split_k config)"
proof -
  from assms obtain c extent where
    l: "length (lhs_contracting_dimensions (dot_dimension_numbers dot_instr)) = 1"
    and c: "at (lhs_contracting_dimensions (dot_dimension_numbers dot_instr)) 0 = Some c"
    and e: "at (dimensions (operand0 dot_instr)) c = Some extent"
    and k: "dim_k d = s32 (extent * split_k config)"
    unfolding operand_dims_def Let_def
    by (auto simp: bind_eq_Some_conv split: if_splits prod.splits)
  from l c have "lhs_contracting_dimensions (dot_dimension_numbers dot_instr) = [c]"
    by (cases "lhs_contracting_dimensions (dot_dimension_numbers dot_instr)") auto
  then show thesis using e k by (rule that)
qed






lemma set_for_indices:
  "0 < step \<Longrightarrow>
   set (for_indices lb ub step) = {ki. lb \<le> ki \<and> ki < ub \<and> step dvd (ki - lb)}"
proof (induction lb ub step rule: for_indices.induct)
  case (1 lb ub step)
  show ?case
  proof (cases "lb < ub")
    case False
    with 1 show ?thesis by (auto simp: for_indices.simps [of lb ub step])
  next
    case True
    with 1 have ih: "set (for_indices (lb + step) ub step)
        = {ki. lb + step \<le> ki \<and> ki < ub \<and> step dvd (ki - (lb + step))}"
      by simp
    have "{ki. lb \<le> ki \<and> ki < ub \<and> step dvd (ki - lb)}
        = insert lb {ki. lb + step \<le> ki \<and> ki < ub \<and> step dvd (ki - (lb + step))}"
      (is "?A = insert lb ?B")
    proof (intro set_eqI iffI)
      fix ki assume "ki \<in> ?A"
      then have k: "lb \<le> ki" "ki < ub" "step dvd (ki - lb)" by simp_all
      show "ki \<in> insert lb ?B"
      proof (cases "ki = lb")
        case False
        with k have "0 < ki - lb" by simp
        with k(3) have "step \<le> ki - lb" by (rule zdvd_imp_le)
        moreover from k(3) have "step dvd (ki - lb - step)" by simp
        ultimately show ?thesis using k by (simp add: algebra_simps)
      qed simp
    next
      fix ki assume "ki \<in> insert lb ?B"
      then consider "ki = lb" | "ki \<in> ?B" by blast
      then show "ki \<in> ?A"
      proof cases
        case 1
        with True show ?thesis by simp
      next
        case 2
        then have k: "lb + step \<le> ki" "ki < ub" "step dvd (ki - (lb + step))" by simp_all
        from k(3) have "step dvd (ki - (lb + step) + step)" by (simp only: dvd_add_triv_right_iff)
        then have "step dvd (ki - lb)" by (simp add: algebra_simps)
        with k \<open>0 < step\<close> show ?thesis by simp
      qed
    qed
    with ih True 1 show ?thesis
      by (simp add: for_indices.simps [of lb ub step])
  qed
qed



text \<open>
  The offsets of the addresses of a lowered kernel and their index types; the examples of a
  product with an operand of \<open>3 * 10\<^sup>9\<close> elements, of one with \<open>10\<^sup>6\<close> elements, of a
  configuration whose shared memory estimate does not fit 32 bits, and of the grid of
  \<open>65536\<^sup>2\<close> blocks.
\<close>

lemma Cast_offsets: "Cast s x t = Some y \<Longrightarrow> addptr_offsets y = addptr_offsets x"
  by (auto simp: Cast_def split: if_splits)

lemma pid_index_types:
  "index_type (pid_m lb w gm) = Some I32Type" "index_type (pid_n lb w gm) = Some I32Type"
  "addptr_offsets (pid_m lb w gm) = []" "addptr_offsets (pid_n lb w gm) = []"
  by (simp_all add: pid_m_def pid_n_def first_pid_m_def group_id_def pid_nc_def CreateConst_def
      group_m_op_def group_size_def sub0_def)

lemma range_index_types:
  "index_type (range_m c) = Some I32Type" "index_type (range_n c) = Some I32Type"
  "index_type (range_k c) = Some I32Type"
  "addptr_offsets (range_m c) = []" "addptr_offsets (range_n c) = []"
  "addptr_offsets (range_k c) = []"
  by (simp_all add: range_m_def range_n_def range_k_def pid_index_types build_splat_def
      build_range_def CreateConst_def pid_k_def)

lemma convert_index_types:
  "index_type x = Some I32Type \<Longrightarrow>
     index_type (convert_range I x) = Some (case I of int32_t \<Rightarrow> I32Type | int64_t \<Rightarrow> I64Type)"
  "index_type x = Some I32Type \<Longrightarrow>
     index_type (convert_scalar I x) = Some (case I of int32_t \<Rightarrow> I32Type | int64_t \<Rightarrow> I64Type)"
  "addptr_offsets (convert_range I x) = addptr_offsets x"
  "addptr_offsets (convert_scalar I x) = addptr_offsets x"
  "index_type (CreateConst (int_ty I) n)
     = Some (case I of int32_t \<Rightarrow> I32Type | int64_t \<Rightarrow> I64Type)"
  "index_type (CreateConstT (int_ty I) n shp)
     = Some (case I of int32_t \<Rightarrow> I32Type | int64_t \<Rightarrow> I64Type)"
  by (cases I; simp add: convert_range_def convert_scalar_def int_ty_def CreateConst_def
      CreateConstT_def)+

lemma const_offsets:
  "addptr_offsets (CreateConst ty n) = []" "addptr_offsets (CreateConstT ty n shp) = []"
  by (simp_all add: CreateConst_def CreateConstT_def)

lemma argument_offsets:
  "getArgument fn i = Some a \<Longrightarrow> addptr_offsets a = []"
  "back_argument fn = Some b \<Longrightarrow> addptr_offsets b = []"
  by (auto simp: getArgument_def back_argument_def split: if_splits)

lemma tile_offsets:
  assumes "addptr_offsets (c_lhs c) = []" "addptr_offsets (c_rhs c) = []"
    "addptr_offsets (c_out c) = []"
  shows "map index_type (addptr_offsets (lhs_ptrs_base c))
     = replicate 2 (Some (case c_index c of int32_t \<Rightarrow> I32Type | int64_t \<Rightarrow> I64Type))"
  "map index_type (addptr_offsets (rhs_ptrs_base c))
     = replicate 2 (Some (case c_index c of int32_t \<Rightarrow> I32Type | int64_t \<Rightarrow> I64Type))"
  "map index_type (addptr_offsets (out_ptrs c))
     = replicate 4 (Some (case c_index c of int32_t \<Rightarrow> I32Type | int64_t \<Rightarrow> I64Type))"
  using assms
  by (simp_all add: lhs_ptrs_base_def rhs_ptrs_base_def out_ptrs_def Let_def build_addptr_def
      build_splat_def build_bcast_def convert_index_types range_index_types pid_batch_def
      pid_k_def const_offsets CreateConstT_def [of I32Type] numeral_2_eq_2 numeral_eq_Suc)

lemma mask_offsets:
  "addptr_offsets (store_mask c) = []"
  "(case lhs_mask c of None \<Rightarrow> [] | Some m \<Rightarrow> addptr_offsets m) = []"
  "(case rhs_mask c of None \<Rightarrow> [] | Some m \<Rightarrow> addptr_offsets m) = []"
  "(case zeros_like_lhs c of None \<Rightarrow> [] | Some m \<Rightarrow> addptr_offsets m) = []"
  "(case zeros_like_rhs c of None \<Rightarrow> [] | Some m \<Rightarrow> addptr_offsets m) = []"
  by (simp_all add: store_mask_def lhs_mask_def rhs_mask_def zeros_like_lhs_def
      zeros_like_rhs_def Let_def build_bcast_def build_splat_def range_index_types
      CreateConstT_def elements_in_tile_def CreateConst_def)

lemma MatMulImpl_offsets:
  assumes "MatMulImpl I env analysis dot_instr fn config shmem_budget = Some (Ok ld, fn')"
  shows "\<exists>ptrs v msk. blocks fn' = blocks fn @ [StoreOp ptrs v msk] \<and>
           addptr_offsets msk = [] \<and>
           map index_type (addptr_offsets ptrs)
             = replicate 4 (Some (case I of int32_t \<Rightarrow> I32Type | int64_t \<Rightarrow> I64Type)) \<and>
           map index_type (addptr_offsets v)
             = replicate 6 (Some (case I of int32_t \<Rightarrow> I32Type | int64_t \<Rightarrow> I64Type))"
  using assms
proof (elim MatMulImpl_OkE)
  fix lhs_ty rhs_ty d st grid_m grid_n root_ty lhs rhs out store
  let ?c = "\<lparr> c_index = I, c_dims = d, c_strides = st, c_config = config,
           c_block_m = s32 (block_m config), c_block_k = s32 (block_k config),
           c_block_n = s32 (block_n config),
           c_grid_m = grid_m, c_width = s32 (group_m * grid_n),
           c_large_batch = (batch_size d \<ge> kBlockCountYZLimit),
           c_lhs_ty = lhs_ty, c_rhs_ty = rhs_ty, c_root_ty = root_ty,
           c_dot_ty = dot_ty_of lhs_ty rhs_ty,
           c_acc_ty = acc_ty_of root_ty (dot_ty_of lhs_ty rhs_ty),
           c_lhs = lhs, c_rhs = rhs, c_out = out,
           c_tf32 = tensor_float_32_execution_enabled env \<rparr>"
  assume e: "emit_store ?c = Some store" and f: "fn' = fn\<lparr>blocks := blocks fn @ [store]\<rparr>"
    and a: "getArgument fn (parameter_number (OperandToParameter analysis 0)) = Some lhs"
      "getArgument fn (parameter_number (OperandToParameter analysis 1)) = Some rhs"
      "back_argument fn = Some out"
  from a have args: "addptr_offsets (c_lhs ?c) = []" "addptr_offsets (c_rhs ?c) = []"
    "addptr_offsets (c_out ?c) = []"
    by (simp_all add: argument_offsets)
  note t = tile_offsets [OF args]
  from e obtain l r v where
    l: "Cast (c_lhs_ty ?c) (LoadOp (IterArg 0) (lhs_mask ?c) (zeros_like_lhs ?c))
          (c_dot_ty ?c) = Some l"
    and r: "Cast (c_rhs_ty ?c) (LoadOp (IterArg 1) (rhs_mask ?c) (zeros_like_rhs ?c))
          (c_dot_ty ?c) = Some r"
    and v: "Cast (c_acc_ty ?c)
       (getResult
          (ForOp (ConstantIntOp 0 32) (ConstantIntOp (dim_k (c_dims ?c)) 32)
             (ConstantIntOp (loop_step ?c) 32)
             [lhs_ptrs_base ?c, rhs_ptrs_base ?c, acc_init ?c]
             [build_addptr (IterArg 0)
                (CreateConstT (int_ty (c_index ?c)) (loop_step ?c * stride_lhs_k (c_dims ?c))
                   (shape_m_k ?c)),
              build_addptr (IterArg 1)
                (CreateConstT (int_ty (c_index ?c)) (loop_step ?c * stride_rhs_k (c_dims ?c))
                   (shape_k_n ?c)),
              DotOp l r (IterArg 2) (c_tf32 ?c)]) 2)
       (c_root_ty ?c) = Some v"
    and s: "store = StoreOp (out_ptrs ?c) v (store_mask ?c)"
    by (elim emit_store_SomeE)
  have ol: "addptr_offsets l = []"
    unfolding Cast_offsets [OF l] by (simp add: mask_offsets)
  have or: "addptr_offsets r = []"
    unfolding Cast_offsets [OF r] by (simp add: mask_offsets)
  have ov: "map index_type (addptr_offsets v)
      = replicate 6 (Some (case I of int32_t \<Rightarrow> I32Type | int64_t \<Rightarrow> I64Type))"
    unfolding Cast_offsets [OF v] using t(1,2)
    by (simp add: ol or acc_init_def build_addptr_def convert_index_types const_offsets
        numeral_2_eq_2 numeral_eq_Suc)
  from f s have "blocks fn' = blocks fn @ [StoreOp (out_ptrs ?c) v (store_mask ?c)]"
    by simp
  moreover have "addptr_offsets (store_mask ?c) = []" by (rule mask_offsets)
  moreover from t(3) have "map index_type (addptr_offsets (out_ptrs ?c))
      = replicate 4 (Some (case I of int32_t \<Rightarrow> I32Type | int64_t \<Rightarrow> I64Type))"
    by simp
  ultimately show ?thesis using ov by blast
qed

lemma example_wide:
  "map_option fst (MatMul example_env (batched_analysis F16 1000 3000 1000 48)
      (batched_dot F16 1000 3000 1000 48) (example_fn F16Type) (example_config 16 16 32 4)
      100000)
   = Some (Ok \<lparr> block_counts = (564, 1000, 1), thread_counts_per_block = (128, 1, 1),
               shared_mem_bytes = 0 \<rparr>)"
  by code_simp

lemma example_wide_offsets:
  "map_option (\<lambda>r. map offset_types (blocks (snd r)))
     (MatMul example_env (batched_analysis F16 1000 3000 1000 48)
        (batched_dot F16 1000 3000 1000 48) (example_fn F16Type) (example_config 16 16 32 4)
        100000)
   = Some [replicate 10 (Some I64Type)]"
  by code_simp

lemma example_narrow_offsets:
  "map_option (\<lambda>r. map offset_types (blocks (snd r)))
     (MatMul example_env (row_major_analysis F16 1000 1000 1000)
        (row_major_dot F16 F16 1000 1000 1000) (example_fn F16Type) (example_config 32 16 32 4)
        100000)
   = Some [replicate 10 (Some I32Type)]"
  by code_simp

lemma example_estimate_wraps:
  "map_option (\<lambda>r. (fst r, length (blocks (snd r))))
     (MatMul example_env (row_major_analysis F32 70 100 48)
        (row_major_dot F32 F32 70 100 48) (example_fn F32Type)
        (example_config 4096 4096 65536 4) 100000)
   = Some (Ok \<lparr> block_counts = (1, 1, 1), thread_counts_per_block = (128, 1, 1),
               shared_mem_bytes = 0 \<rparr>, 1)"
  by code_simp

lemma example_grid_limit:
  "map_option (\<lambda>r. (fst r, length (blocks (snd r))))
     (MatMul example_env (batched_analysis F16 65536 4096 32 4096)
        (batched_dot F16 65536 4096 32 4096) (example_fn F16Type) (example_config 16 16 32 4)
        100000)
   = Some (Ok \<lparr> block_counts = (65536, 65536, 1), thread_counts_per_block = (128, 1, 1),
               shared_mem_bytes = 0 \<rparr>, 1)"
  by code_simp

section \<open>Properties of the lowering\<close>

text \<open>
  C1. In every successful lowering (of an operation whose reduction length, block sizes and
  loop step fit 32-bit integers, with \<open>split_k \<ge> 1\<close>) the stored value is the cast of the third result
  of one loop from 0 to \<open>k = extent * split_k\<close>, \<open>extent\<close> being the size of the lhs contracting
  dimension, in steps of \<open>block_k * split_k\<close>. The loop carries three values. The first is the
  lhs address tile: the lhs argument plus the batch offset, splat to \<open>block_m \<times> block_k\<close>, plus
  the row offsets (the rows of the tile modulo the size of the m dimension, times the m
  stride) and the column offsets (the contracting range times the k stride). The second is
  the rhs address tile, built likewise from the rhs argument, the contracting range and the
  columns of the tile modulo the size of the n dimension. The third is a \<open>block_m \<times> block_n\<close>
  accumulator of zeros. Every index is of the index type of the lowering, the 32-bit values
  being sign-extended when that type is 64 bits wide. The loop yields the lhs tile advanced by
  \<open>block_k * split_k\<close> times the lhs k stride, the rhs tile advanced by \<open>block_k * split_k\<close> times
  the rhs k stride, and the dot of the two loaded tiles added to the accumulator. When
  \<open>k mod (block_k * split_k) \<noteq> 0\<close>, the
  body, which every round of the loop runs, loads both tiles under a mask that compares the
  contracting range with \<open>k\<close> minus the induction variable, with zeros for the masked
  elements; otherwise both loads have no mask and no other value. The induction variable takes
  the multiples of the step below \<open>k\<close>.
\<close>

theorem reduction_loop_structure:
  "MatMulImpl I env analysis dot_instr fn config shmem_budget = Some (Ok ld, fn') \<and>
   lhs_contracting_dimensions (dot_dimension_numbers dot_instr) = [c] \<and>
   at (dimensions (operand0 dot_instr)) c = Some extent \<and>
   0 \<le> extent * split_k config \<and> extent * split_k config \<le> INT_MAX \<and>
   1 \<le> split_k config \<and> block_k config * split_k config \<le> INT_MAX \<and>
   16 \<le> block_m config \<and> block_m config \<le> INT_MAX \<and>
   16 \<le> block_k config \<and> block_k config \<le> INT_MAX \<and>
   16 \<le> block_n config \<and> block_n config \<le> INT_MAX
   \<longrightarrow> (\<exists>lhs_ty rhs_ty root_ty acc_ty dot_ty ptrs v mask l r lhs_mask' lhs_other rhs_mask'
          rhs_other range_k' remaining d grid_m grid_n lhs_arg rhs_arg ity ext pid_b range_m'
          range_n' lhs_tile rhs_tile.
         blocks fn' = blocks fn @ [StoreOp ptrs v mask] \<and>
         Cast acc_ty
           (getResult
              (ForOp (ConstantIntOp 0 32) (ConstantIntOp (extent * split_k config) 32)
                 (ConstantIntOp (block_k config * split_k config) 32)
                 [lhs_tile, rhs_tile,
                  ConstantTensorOp acc_ty 0 [block_m config, block_n config]]
                 [AddPtrOp (IterArg 0)
                    (ConstantTensorOp ity (block_k config * split_k config * stride_lhs_k d)
                       [block_m config, block_k config]),
                  AddPtrOp (IterArg 1)
                    (ConstantTensorOp ity (block_k config * split_k config * stride_rhs_k d)
                       [block_k config, block_n config]),
                  DotOp l r (IterArg 2) (tensor_float_32_execution_enabled env)]) 2)
           root_ty = Some v \<and>
         Cast lhs_ty (LoadOp (IterArg 0) lhs_mask' lhs_other) dot_ty = Some l \<and>
         Cast rhs_ty (LoadOp (IterArg 1) rhs_mask' rhs_other) dot_ty = Some r \<and>
         range_k' = AddIOp (SplatOp (MulIOp (GetProgramIdOp DimZ)
                                       (ConstantOp I32Type (block_k config)))
                              [block_k config])
                      (MakeRangeOp 0 (block_k config)) \<and>
         remaining = SubIOp (ConstantOp I32Type (extent * split_k config)) InductionVar \<and>
         (if (extent * split_k config) mod (block_k config * split_k config) \<noteq> 0
          then lhs_mask' = Some (BroadcastOp
                                  (CmpIOp slt (ExpandDimsOp range_k' 0)
                                     (SplatOp remaining [1, block_k config]))
                                  [block_m config, block_k config]) \<and>
               lhs_other = Some (ConstantTensorOp lhs_ty 0 [block_m config, block_k config]) \<and>
               rhs_mask' = Some (BroadcastOp
                                  (CmpIOp slt (ExpandDimsOp range_k' 1)
                                     (SplatOp remaining [block_k config, 1]))
                                  [block_k config, block_n config]) \<and>
               rhs_other = Some (ConstantTensorOp rhs_ty 0 [block_k config, block_n config])
          else lhs_mask' = None \<and> lhs_other = None \<and> rhs_mask' = None \<and> rhs_other = None) \<and>
         operand_dims I analysis dot_instr config = Some d \<and>
         ceil_div (m_minor d) (block_m config) = Some grid_m \<and>
         ceil_div (dim_n d) (block_n config) = Some grid_n \<and>
         getArgument fn (parameter_number (OperandToParameter analysis 0)) = Some lhs_arg \<and>
         getArgument fn (parameter_number (OperandToParameter analysis 1)) = Some rhs_arg \<and>
         ity = (case I of int32_t \<Rightarrow> I32Type | int64_t \<Rightarrow> I64Type) \<and>
         ext = (\<lambda>x. case I of int32_t \<Rightarrow> x | int64_t \<Rightarrow> ExtSIOp I64Type x) \<and>
         pid_b = GetProgramIdOp (if 65536 \<le> batch_size d then DimX else DimY) \<and>
         range_m' = AddIOp (SplatOp (MulIOp (pid_m (65536 \<le> batch_size d) (s32 (8 * grid_n))
                                               grid_m)
                                       (ConstantOp I32Type (block_m config)))
                              [block_m config])
                      (MakeRangeOp 0 (block_m config)) \<and>
         range_n' = AddIOp (SplatOp (MulIOp (pid_n (65536 \<le> batch_size d) (s32 (8 * grid_n))
                                               grid_m)
                                       (ConstantOp I32Type (block_n config)))
                              [block_n config])
                      (MakeRangeOp 0 (block_n config)) \<and>
         lhs_tile =
           AddPtrOp
             (SplatOp (AddPtrOp lhs_arg
                         (MulIOp (ext pid_b) (ConstantOp ity (stride_batch_lhs d))))
                [block_m config, block_k config])
             (AddIOp
                (BroadcastOp
                   (MulIOp (ExpandDimsOp
                              (ext (RemSIOp range_m'
                                      (ConstantTensorOp I32Type (m_minor d) [block_m config])))
                              1)
                      (ConstantTensorOp ity (stride_lhs_m d) [block_m config, 1]))
                   [block_m config, block_k config])
                (BroadcastOp
                   (MulIOp (ExpandDimsOp (ext range_k') 0)
                      (ConstantTensorOp ity (stride_lhs_k d) [1, block_k config]))
                   [block_m config, block_k config])) \<and>
         rhs_tile =
           AddPtrOp
             (SplatOp (AddPtrOp rhs_arg
                         (MulIOp (ext pid_b) (ConstantOp ity (stride_batch_rhs d))))
                [block_k config, block_n config])
             (AddIOp
                (BroadcastOp
                   (MulIOp (ExpandDimsOp (ext range_k') 1)
                      (ConstantTensorOp ity (stride_rhs_k d) [block_k config, 1]))
                   [block_k config, block_n config])
                (BroadcastOp
                   (MulIOp (ExpandDimsOp
                              (ext (RemSIOp range_n'
                                      (ConstantTensorOp I32Type (dim_n d) [block_n config])))
                              0)
                      (ConstantTensorOp ity (stride_rhs_n d) [1, block_n config]))
                   [block_k config, block_n config]))) \<and>
       set (for_indices 0 (extent * split_k config) (block_k config * split_k config))
         = {ki. 0 \<le> ki \<and> ki < extent * split_k config \<and>
                block_k config * split_k config dvd ki}"
  (is "_ \<longrightarrow> ?concl")
proof (intro impI, elim conjE)
  let ?K = "extent * split_k config"
  let ?S = "block_k config * split_k config"
  assume run: "MatMulImpl I env analysis dot_instr fn config shmem_budget = Some (Ok ld, fn')"
    and lc: "lhs_contracting_dimensions (dot_dimension_numbers dot_instr) = [c]"
    and ex: "at (dimensions (operand0 dot_instr)) c = Some extent"
    and k: "0 \<le> ?K" "?K \<le> INT_MAX"
    and sk: "1 \<le> split_k config"
    and sm: "block_k config * split_k config \<le> INT_MAX"
    and bm: "16 \<le> block_m config" "block_m config \<le> INT_MAX"
    and bk: "16 \<le> block_k config" "block_k config \<le> INT_MAX"
    and bn: "16 \<le> block_n config" "block_n config \<le> INT_MAX"
  from bm bk bn have b: "s32 (block_m config) = block_m config"
    "s32 (block_k config) = block_k config" "s32 (block_n config) = block_n config"
    by (simp_all add: s32_id INT_MAX_def)
  from bk sk have S: "0 < ?S" by simp
  have idx: "set (for_indices 0 ?K ?S) = {ki. 0 \<le> ki \<and> ki < ?K \<and> ?S dvd ki}"
    using set_for_indices [OF S, of 0 ?K] by simp
  from run show ?concl
  proof (elim MatMulImpl_OkE)
    fix lhs_ty rhs_ty d st grid_m grid_n root_ty lhs rhs out store
    let ?c = "\<lparr> c_index = I, c_dims = d, c_strides = st, c_config = config,
           c_block_m = s32 (block_m config), c_block_k = s32 (block_k config),
           c_block_n = s32 (block_n config),
           c_grid_m = grid_m, c_width = s32 (group_m * grid_n),
           c_large_batch = (batch_size d \<ge> kBlockCountYZLimit),
           c_lhs_ty = lhs_ty, c_rhs_ty = rhs_ty, c_root_ty = root_ty,
           c_dot_ty = dot_ty_of lhs_ty rhs_ty,
           c_acc_ty = acc_ty_of root_ty (dot_ty_of lhs_ty rhs_ty),
           c_lhs = lhs, c_rhs = rhs, c_out = out,
           c_tf32 = tensor_float_32_execution_enabled env \<rparr>"
    let ?rk = "AddIOp (SplatOp (MulIOp (GetProgramIdOp DimZ)
                                  (ConstantOp I32Type (block_k config))) [block_k config])
                 (MakeRangeOp 0 (block_k config))"
    let ?rem = "SubIOp (ConstantOp I32Type ?K) InductionVar"
    let ?ity = "case I of int32_t \<Rightarrow> I32Type | int64_t \<Rightarrow> I64Type"
    let ?ext = "\<lambda>x. case I of int32_t \<Rightarrow> x | int64_t \<Rightarrow> ExtSIOp I64Type x"
    let ?pb = "GetProgramIdOp (if 65536 \<le> batch_size d then DimX else DimY)"
    let ?rm = "AddIOp (SplatOp (MulIOp (pid_m (65536 \<le> batch_size d) (s32 (8 * grid_n))
                                               grid_m)
                                       (ConstantOp I32Type (block_m config)))
                              [block_m config])
                      (MakeRangeOp 0 (block_m config))"
    let ?rn = "AddIOp (SplatOp (MulIOp (pid_n (65536 \<le> batch_size d) (s32 (8 * grid_n))
                                               grid_m)
                                       (ConstantOp I32Type (block_n config)))
                              [block_n config])
                      (MakeRangeOp 0 (block_n config))"
    let ?lt = "AddPtrOp
             (SplatOp (AddPtrOp lhs
                         (MulIOp (?ext ?pb) (ConstantOp ?ity (stride_batch_lhs d))))
                [block_m config, block_k config])
             (AddIOp
                (BroadcastOp
                   (MulIOp (ExpandDimsOp
                              (?ext (RemSIOp ?rm
                                      (ConstantTensorOp I32Type (m_minor d) [block_m config])))
                              1)
                      (ConstantTensorOp ?ity (stride_lhs_m d) [block_m config, 1]))
                   [block_m config, block_k config])
                (BroadcastOp
                   (MulIOp (ExpandDimsOp (?ext ?rk) 0)
                      (ConstantTensorOp ?ity (stride_lhs_k d) [1, block_k config]))
                   [block_m config, block_k config]))"
    let ?rt = "AddPtrOp
             (SplatOp (AddPtrOp rhs
                         (MulIOp (?ext ?pb) (ConstantOp ?ity (stride_batch_rhs d))))
                [block_k config, block_n config])
             (AddIOp
                (BroadcastOp
                   (MulIOp (ExpandDimsOp (?ext ?rk) 1)
                      (ConstantTensorOp ?ity (stride_rhs_k d) [block_k config, 1]))
                   [block_k config, block_n config])
                (BroadcastOp
                   (MulIOp (ExpandDimsOp
                              (?ext (RemSIOp ?rn
                                      (ConstantTensorOp I32Type (dim_n d) [block_n config])))
                              0)
                      (ConstantTensorOp ?ity (stride_rhs_n d) [1, block_n config]))
                   [block_k config, block_n config]))"
    assume od: "operand_dims I analysis dot_instr config = Some d"
    assume gm: "ceil_div (m_minor d) (s32 (block_m config)) = Some grid_m"
      and gn: "ceil_div (dim_n d) (s32 (block_n config)) = Some grid_n"
      and la: "getArgument fn (parameter_number (OperandToParameter analysis 0)) = Some lhs"
      and ra: "getArgument fn (parameter_number (OperandToParameter analysis 1)) = Some rhs"
    assume e: "emit_store ?c = Some store" and f: "fn' = fn\<lparr>blocks := blocks fn @ [store]\<rparr>"
    from od lc ex have "dim_k d = s32 ?K"
      by (elim operand_dims_k) simp
    with k have dk: "dim_k d = ?K" by (simp add: s32_id INT_MAX_def)
    have ls: "loop_step ?c = ?S" by (simp add: loop_step_def b)
    from k S have nm: "needs_mask ?c = (?K mod ?S \<noteq> 0)"
    proof -
      from k S have "trem ?K ?S = ?K mod ?S" by (intro trem_nonneg)
      moreover from S have "0 \<le> ?K mod ?S" by (rule pos_mod_sign)
      ultimately have "(0 < trem ?K ?S) = (?K mod ?S \<noteq> 0)" by linarith
      moreover have "dim_k (c_dims ?c) = ?K" by (simp add: dk)
      ultimately show ?thesis unfolding needs_mask_def ls by (simp only:)
    qed
    have rk: "range_k ?c = ?rk"
      by (simp add: range_k_def pid_k_def build_splat_def build_range_def CreateConst_def b)
    have rm: "range_m ?c = ?rm"
      by (simp add: range_m_def build_splat_def build_range_def CreateConst_def b
          kBlockCountYZLimit_def group_m_def)
    have rn: "range_n ?c = ?rn"
      by (simp add: range_n_def build_splat_def build_range_def CreateConst_def b
          kBlockCountYZLimit_def group_m_def)
    have el: "elements_in_tile ?c = ?rem"
      by (simp add: elements_in_tile_def CreateConst_def dk)
    have masks: "if ?K mod ?S \<noteq> 0
          then lhs_mask ?c = Some (BroadcastOp
                                  (CmpIOp slt (ExpandDimsOp ?rk 0)
                                     (SplatOp ?rem [1, block_k config]))
                                  [block_m config, block_k config]) \<and>
               zeros_like_lhs ?c
                 = Some (ConstantTensorOp lhs_ty 0 [block_m config, block_k config]) \<and>
               rhs_mask ?c = Some (BroadcastOp
                                  (CmpIOp slt (ExpandDimsOp ?rk 1)
                                     (SplatOp ?rem [block_k config, 1]))
                                  [block_k config, block_n config]) \<and>
               zeros_like_rhs ?c
                 = Some (ConstantTensorOp rhs_ty 0 [block_k config, block_n config])
          else lhs_mask ?c = None \<and> zeros_like_lhs ?c = None \<and> rhs_mask ?c = None \<and>
               zeros_like_rhs ?c = None"
      unfolding lhs_mask_def rhs_mask_def zeros_like_lhs_def zeros_like_rhs_def nm rk el
      by (simp add: build_bcast_def build_splat_def CreateConstT_def shape_1_k_def
          shape_m_k_def shape_k_1_def shape_k_n_def b)
    have lp: "lhs_ptrs_base ?c = ?lt"
      unfolding lhs_ptrs_base_def Let_def rk rm
      by (cases I)
         (simp_all add: convert_range_def convert_scalar_def build_addptr_def build_splat_def
            build_bcast_def int_ty_def CreateConst_def CreateConstT_def shape_m_1_def
            shape_1_k_def shape_m_k_def pid_batch_def kBlockCountYZLimit_def b)
    have rp: "rhs_ptrs_base ?c = ?rt"
      unfolding rhs_ptrs_base_def Let_def rk rn
      by (cases I)
         (simp_all add: convert_range_def convert_scalar_def build_addptr_def build_splat_def
            build_bcast_def int_ty_def CreateConst_def CreateConstT_def shape_k_1_def
            shape_1_n_def shape_k_n_def pid_batch_def kBlockCountYZLimit_def b)
    have ai: "acc_init ?c = ConstantTensorOp (acc_ty_of root_ty (dot_ty_of lhs_ty rhs_ty)) 0
        [block_m config, block_n config]"
      by (simp add: acc_init_def CreateConstT_def shape_m_n_def b)
    from e obtain l r v where
      l: "Cast lhs_ty (LoadOp (IterArg 0) (lhs_mask ?c) (zeros_like_lhs ?c))
            (dot_ty_of lhs_ty rhs_ty) = Some l"
      and r: "Cast rhs_ty (LoadOp (IterArg 1) (rhs_mask ?c) (zeros_like_rhs ?c))
            (dot_ty_of lhs_ty rhs_ty) = Some r"
      and v: "Cast (c_acc_ty ?c)
       (getResult
          (ForOp (ConstantIntOp 0 32) (ConstantIntOp (dim_k (c_dims ?c)) 32)
             (ConstantIntOp (loop_step ?c) 32)
             [lhs_ptrs_base ?c, rhs_ptrs_base ?c, acc_init ?c]
             [build_addptr (IterArg 0)
                (CreateConstT (int_ty (c_index ?c)) (loop_step ?c * stride_lhs_k (c_dims ?c))
                   (shape_m_k ?c)),
              build_addptr (IterArg 1)
                (CreateConstT (int_ty (c_index ?c)) (loop_step ?c * stride_rhs_k (c_dims ?c))
                   (shape_k_n ?c)),
              DotOp l r (IterArg 2) (c_tf32 ?c)]) 2)
       (c_root_ty ?c) = Some v"
      and s: "store = StoreOp (out_ptrs ?c) v (store_mask ?c)"
      by (elim emit_store_SomeE) simp_all
    from v have v': "Cast (acc_ty_of root_ty (dot_ty_of lhs_ty rhs_ty))
       (getResult
          (ForOp (ConstantIntOp 0 32) (ConstantIntOp ?K 32) (ConstantIntOp ?S 32)
             [?lt, ?rt,
              ConstantTensorOp (acc_ty_of root_ty (dot_ty_of lhs_ty rhs_ty)) 0
                [block_m config, block_n config]]
             [AddPtrOp (IterArg 0)
                (ConstantTensorOp ?ity (?S * stride_lhs_k d) [block_m config, block_k config]),
              AddPtrOp (IterArg 1)
                (ConstantTensorOp ?ity (?S * stride_rhs_k d) [block_k config, block_n config]),
              DotOp l r (IterArg 2) (tensor_float_32_execution_enabled env)]) 2)
       root_ty = Some v"
      unfolding ls lp rp ai
      by (simp add: dk build_addptr_def CreateConstT_def int_ty_def shape_m_k_def
          shape_k_n_def b)
    from f s have blk: "blocks fn' = blocks fn @ [StoreOp (out_ptrs ?c) v (store_mask ?c)]"
      by simp
    note gm' = gm [unfolded b] and gn' = gn [unfolded b]
    show ?thesis
      by (intro exI conjI) (rule blk v' l r masks od gm' gn' la ra idx refl)+
  qed
qed

theorem reduction_loop_structure_witness:
  "\<exists>ld fn' ptrs v mask lhs_ty rhs_ty dot_ty acc_ty root_ty l r lhs_mask' lhs_other rhs_mask'
      rhs_other range_k'.
     MatMulImpl int32_t example_env (row_major_analysis F16 70 100 48)
       (row_major_dot F16 F16 70 100 48) (example_fn F16Type) (example_config 32 16 32 4)
       100000 = Some (Ok ld, fn') \<and>
     blocks fn' = blocks (example_fn F16Type) @ [StoreOp ptrs v mask] \<and>
     range_k' = AddIOp (SplatOp (MulIOp (GetProgramIdOp DimZ) (ConstantOp I32Type 32)) [32])
                  (MakeRangeOp 0 32) \<and>
     Cast acc_ty
       (getResult
          (ForOp (ConstantIntOp 0 32) (ConstantIntOp 100 32) (ConstantIntOp 32 32)
             [AddPtrOp
                (SplatOp (AddPtrOp (Argument 0)
                            (MulIOp (GetProgramIdOp DimY) (ConstantOp I32Type 0))) [32, 32])
                (AddIOp
                   (BroadcastOp
                      (MulIOp (ExpandDimsOp
                                 (RemSIOp
                                    (AddIOp (SplatOp (MulIOp (pid_m False 24 3)
                                                        (ConstantOp I32Type 32)) [32])
                                       (MakeRangeOp 0 32))
                                    (ConstantTensorOp I32Type 70 [32])) 1)
                         (ConstantTensorOp I32Type 100 [32, 1])) [32, 32])
                   (BroadcastOp
                      (MulIOp (ExpandDimsOp range_k' 0) (ConstantTensorOp I32Type 1 [1, 32]))
                      [32, 32])),
              AddPtrOp
                (SplatOp (AddPtrOp (Argument 1)
                            (MulIOp (GetProgramIdOp DimY) (ConstantOp I32Type 0))) [32, 16])
                (AddIOp
                   (BroadcastOp
                      (MulIOp (ExpandDimsOp range_k' 1) (ConstantTensorOp I32Type 48 [32, 1]))
                      [32, 16])
                   (BroadcastOp
                      (MulIOp (ExpandDimsOp
                                 (RemSIOp
                                    (AddIOp (SplatOp (MulIOp (pid_n False 24 3)
                                                        (ConstantOp I32Type 16)) [16])
                                       (MakeRangeOp 0 16))
                                    (ConstantTensorOp I32Type 48 [16])) 0)
                         (ConstantTensorOp I32Type 1 [1, 16])) [32, 16])),
              ConstantTensorOp acc_ty 0 [32, 16]]
             [AddPtrOp (IterArg 0) (ConstantTensorOp I32Type 32 [32, 32]),
              AddPtrOp (IterArg 1) (ConstantTensorOp I32Type 1536 [32, 16]),
              DotOp l r (IterArg 2) True]) 2)
       root_ty = Some v \<and>
     Cast lhs_ty (LoadOp (IterArg 0) lhs_mask' lhs_other) dot_ty = Some l \<and>
     Cast rhs_ty (LoadOp (IterArg 1) rhs_mask' rhs_other) dot_ty = Some r \<and>
     lhs_mask' = Some (BroadcastOp
                         (CmpIOp slt (ExpandDimsOp range_k' 0)
                            (SplatOp (SubIOp (ConstantOp I32Type 100) InductionVar) [1, 32]))
                         [32, 32]) \<and>
     lhs_other = Some (ConstantTensorOp lhs_ty 0 [32, 32]) \<and>
     rhs_mask' = Some (BroadcastOp
                         (CmpIOp slt (ExpandDimsOp range_k' 1)
                            (SplatOp (SubIOp (ConstantOp I32Type 100) InductionVar) [32, 1]))
                         [32, 16]) \<and>
     rhs_other = Some (ConstantTensorOp rhs_ty 0 [32, 16]) \<and>
     set (for_indices 0 100 32) = {ki. 0 \<le> ki \<and> ki < 100 \<and> 32 dvd ki}"
proof -
  let ?an = "row_major_analysis F16 70 100 48"
  let ?dot = "row_major_dot F16 F16 70 100 48"
  let ?cfg = "example_config 32 16 32 4"
  from example_MatMulImpl obtain ld fn' where
    a: "MatMulImpl int32_t example_env ?an ?dot (example_fn F16Type) ?cfg 100000
      = Some (Ok ld, fn')"
    by auto
  have c: "block_m ?cfg = 32" "block_k ?cfg = 32" "block_n ?cfg = 16" "split_k ?cfg = 1"
    by (simp_all add: example_config_def)
  have h: "lhs_contracting_dimensions (dot_dimension_numbers ?dot) = [1]"
    "at (dimensions (operand0 ?dot)) 1 = Some 100"
    by (simp_all add: row_major_dot_def)
  have p: "parameter_number (OperandToParameter ?an 0) = 0"
    "parameter_number (OperandToParameter ?an 1) = 1"
    "parameter_number (OperandToParameter ?an (Suc 0)) = 1"
    by (simp_all add: row_major_analysis_def)
  have g: "getArgument (example_fn F16Type) 0 = Some (Argument 0)"
    "getArgument (example_fn F16Type) 1 = Some (Argument 1)"
    by (simp_all add: getArgument_def example_fn_def)
  have e: "tensor_float_32_execution_enabled example_env = True"
    by (simp add: example_env_def)
  have cd: "ceil_div 70 32 = Some 3" "ceil_div 48 16 = Some 3"
    by (simp_all add: ceil_div_def)
  have d: "m_minor example_operand_dims = 70" "dim_n example_operand_dims = 48"
    "stride_lhs_m example_operand_dims = 100" "stride_lhs_k example_operand_dims = 1"
    "stride_rhs_k example_operand_dims = 48" "stride_rhs_n example_operand_dims = 1"
    "batch_size example_operand_dims = 1" "stride_batch_lhs example_operand_dims = 0"
    "stride_batch_rhs example_operand_dims = 0"
    by (simp_all add: example_operand_dims_def)
  have w: "s32 24 = 24" by (simp add: s32_def)
  from a h have pre: "MatMulImpl int32_t example_env ?an ?dot (example_fn F16Type) ?cfg 100000
        = Some (Ok ld, fn') \<and>
      lhs_contracting_dimensions (dot_dimension_numbers ?dot) = [1] \<and>
      at (dimensions (operand0 ?dot)) 1 = Some 100 \<and>
      0 \<le> 100 * split_k ?cfg \<and> 100 * split_k ?cfg \<le> INT_MAX \<and>
      1 \<le> split_k ?cfg \<and> block_k ?cfg * split_k ?cfg \<le> INT_MAX \<and>
      16 \<le> block_m ?cfg \<and> block_m ?cfg \<le> INT_MAX \<and>
      16 \<le> block_k ?cfg \<and> block_k ?cfg \<le> INT_MAX \<and>
      16 \<le> block_n ?cfg \<and> block_n ?cfg \<le> INT_MAX"
    by (simp add: c INT_MAX_def)
  from reduction_loop_structure [of int32_t example_env ?an ?dot "example_fn F16Type" ?cfg
      100000 ld fn' 1 100, THEN mp, OF pre] a
  show ?thesis
    apply (elim exE conjE)
    apply (simp add: c p g e cd d w example_dims)
    apply blast
    done
qed

text \<open>
  C2, as the code has it. The type \<open>dot_ty\<close> to which both loaded tiles are cast is chosen once
  per kernel from the types of the two operands alone: f32 when either operand is f32, else
  bf16 when either is bf16, else f16 when either is f16, else f32 (two operands of type f64
  are left aside here). The two operands of the
  dot operation of the loop body are the casts of the two loaded tiles to that type. The
  accumulator, the third loop-carried value, starts as a \<open>block_m \<times> block_n\<close> tensor of zeros
  of the type \<open>acc_ty\<close>, which is f32 whenever an operand or the output is not f64, whatever the
  type of the casts is: operands of a 16-bit float type accumulate in f32 for a 16-bit output
  as for a wider one.
\<close>

theorem cast_and_accumulator_types:
  "(MatMulImpl I env analysis dot_instr fn config shmem_budget = Some (Ok ld, fn') \<longrightarrow>
      (\<exists>lhs_ty rhs_ty root_ty acc_ty ptrs v mask lb ub step lhs_init rhs_init lhs_inc rhs_inc
         l r lhs_mask' lhs_other rhs_mask' rhs_other.
         TritonType (parameter_element_type (OperandToParameter analysis 0)) = Some lhs_ty \<and>
         TritonType (parameter_element_type (OperandToParameter analysis 1)) = Some rhs_ty \<and>
         TritonType (element_type (shape dot_instr)) = Some root_ty \<and>
         blocks fn' = blocks fn @ [StoreOp ptrs v mask] \<and>
         Cast acc_ty
           (getResult
              (ForOp lb ub step
                 [lhs_init, rhs_init,
                  ConstantTensorOp acc_ty 0 [s32 (block_m config), s32 (block_n config)]]
                 [lhs_inc, rhs_inc,
                  DotOp l r (IterArg 2) (tensor_float_32_execution_enabled env)]) 2)
           root_ty = Some v \<and>
         Cast lhs_ty (LoadOp (IterArg 0) lhs_mask' lhs_other) (dot_ty_of lhs_ty rhs_ty) = Some l \<and>
         Cast rhs_ty (LoadOp (IterArg 1) rhs_mask' rhs_other) (dot_ty_of lhs_ty rhs_ty) = Some r \<and>
         (lhs_ty \<noteq> F64Type \<or> rhs_ty \<noteq> F64Type \<or> root_ty \<noteq> F64Type \<longrightarrow> acc_ty = F32Type)))
   \<and> (lhs_ty = F32Type \<or> rhs_ty = F32Type \<longrightarrow> dot_ty_of lhs_ty rhs_ty = F32Type)
   \<and> (lhs_ty \<noteq> F32Type \<and> rhs_ty \<noteq> F32Type \<and> (lhs_ty = BF16Type \<or> rhs_ty = BF16Type)
        \<longrightarrow> dot_ty_of lhs_ty rhs_ty = BF16Type)
   \<and> (lhs_ty \<notin> {F32Type, BF16Type} \<and> rhs_ty \<notin> {F32Type, BF16Type} \<and>
       (lhs_ty = F16Type \<or> rhs_ty = F16Type) \<longrightarrow> dot_ty_of lhs_ty rhs_ty = F16Type)
   \<and> (lhs_ty \<notin> {F32Type, BF16Type, F16Type} \<and> rhs_ty \<notin> {F32Type, BF16Type, F16Type} \<and>
       \<not> (lhs_ty = F64Type \<and> rhs_ty = F64Type)
        \<longrightarrow> dot_ty_of lhs_ty rhs_ty = F32Type)"
proof (intro conjI impI)
  assume "MatMulImpl I env analysis dot_instr fn config shmem_budget = Some (Ok ld, fn')"
  then show "\<exists>lhs_ty rhs_ty root_ty acc_ty ptrs v mask lb ub step lhs_init rhs_init lhs_inc rhs_inc
         l r lhs_mask' lhs_other rhs_mask' rhs_other.
         TritonType (parameter_element_type (OperandToParameter analysis 0)) = Some lhs_ty \<and>
         TritonType (parameter_element_type (OperandToParameter analysis 1)) = Some rhs_ty \<and>
         TritonType (element_type (shape dot_instr)) = Some root_ty \<and>
         blocks fn' = blocks fn @ [StoreOp ptrs v mask] \<and>
         Cast acc_ty
           (getResult
              (ForOp lb ub step
                 [lhs_init, rhs_init,
                  ConstantTensorOp acc_ty 0 [s32 (block_m config), s32 (block_n config)]]
                 [lhs_inc, rhs_inc,
                  DotOp l r (IterArg 2) (tensor_float_32_execution_enabled env)]) 2)
           root_ty = Some v \<and>
         Cast lhs_ty (LoadOp (IterArg 0) lhs_mask' lhs_other) (dot_ty_of lhs_ty rhs_ty) = Some l \<and>
         Cast rhs_ty (LoadOp (IterArg 1) rhs_mask' rhs_other) (dot_ty_of lhs_ty rhs_ty) = Some r \<and>
         (lhs_ty \<noteq> F64Type \<or> rhs_ty \<noteq> F64Type \<or> root_ty \<noteq> F64Type \<longrightarrow> acc_ty = F32Type)"
  proof (elim MatMulImpl_OkE)
    fix lhs_ty rhs_ty d st grid_m grid_n root_ty lhs rhs out store
    let ?c = "\<lparr> c_index = I, c_dims = d, c_strides = st, c_config = config,
           c_block_m = s32 (block_m config), c_block_k = s32 (block_k config),
           c_block_n = s32 (block_n config),
           c_grid_m = grid_m, c_width = s32 (group_m * grid_n),
           c_large_batch = (batch_size d \<ge> kBlockCountYZLimit),
           c_lhs_ty = lhs_ty, c_rhs_ty = rhs_ty, c_root_ty = root_ty,
           c_dot_ty = dot_ty_of lhs_ty rhs_ty,
           c_acc_ty = acc_ty_of root_ty (dot_ty_of lhs_ty rhs_ty),
           c_lhs = lhs, c_rhs = rhs, c_out = out,
           c_tf32 = tensor_float_32_execution_enabled env \<rparr>"
    assume t: "TritonType (parameter_element_type (OperandToParameter analysis 0)) = Some lhs_ty"
      "TritonType (parameter_element_type (OperandToParameter analysis 1)) = Some rhs_ty"
      "TritonType (element_type (shape dot_instr)) = Some root_ty"
    assume e: "emit_store ?c = Some store" and f: "fn' = fn\<lparr>blocks := blocks fn @ [store]\<rparr>"
    from e obtain l r v where
      l: "Cast lhs_ty (LoadOp (IterArg 0) (lhs_mask ?c) (zeros_like_lhs ?c))
            (dot_ty_of lhs_ty rhs_ty) = Some l"
      and r: "Cast rhs_ty (LoadOp (IterArg 1) (rhs_mask ?c) (zeros_like_rhs ?c))
            (dot_ty_of lhs_ty rhs_ty) = Some r"
      and v: "Cast (c_acc_ty ?c)
       (getResult
          (ForOp (ConstantIntOp 0 32) (ConstantIntOp (dim_k (c_dims ?c)) 32)
             (ConstantIntOp (loop_step ?c) 32)
             [lhs_ptrs_base ?c, rhs_ptrs_base ?c, acc_init ?c]
             [build_addptr (IterArg 0)
                (CreateConstT (int_ty (c_index ?c)) (loop_step ?c * stride_lhs_k (c_dims ?c))
                   (shape_m_k ?c)),
              build_addptr (IterArg 1)
                (CreateConstT (int_ty (c_index ?c)) (loop_step ?c * stride_rhs_k (c_dims ?c))
                   (shape_k_n ?c)),
              DotOp l r (IterArg 2) (c_tf32 ?c)]) 2)
       (c_root_ty ?c) = Some v"
      and s: "store = StoreOp (out_ptrs ?c) v (store_mask ?c)"
      by (elim emit_store_SomeE) simp_all
    have a: "acc_init ?c = ConstantTensorOp (acc_ty_of root_ty (dot_ty_of lhs_ty rhs_ty)) 0
               [s32 (block_m config), s32 (block_n config)]"
      by (simp add: acc_init_def CreateConstT_def shape_m_n_def)
    have "acc_ty_of root_ty (dot_ty_of lhs_ty rhs_ty) = F32Type"
      by (simp add: acc_ty_of_def dot_ty_of_not_F64)
    moreover from v a have "Cast (acc_ty_of root_ty (dot_ty_of lhs_ty rhs_ty))
       (getResult
          (ForOp (ConstantIntOp 0 32) (ConstantIntOp (dim_k d) 32)
             (ConstantIntOp (loop_step ?c) 32)
             [lhs_ptrs_base ?c, rhs_ptrs_base ?c,
              ConstantTensorOp (acc_ty_of root_ty (dot_ty_of lhs_ty rhs_ty)) 0
                [s32 (block_m config), s32 (block_n config)]]
             [build_addptr (IterArg 0)
                (CreateConstT (int_ty I) (loop_step ?c * stride_lhs_k d) (shape_m_k ?c)),
              build_addptr (IterArg 1)
                (CreateConstT (int_ty I) (loop_step ?c * stride_rhs_k d) (shape_k_n ?c)),
              DotOp l r (IterArg 2) (tensor_float_32_execution_enabled env)]) 2)
       root_ty = Some v"
      by simp
    moreover from f s have "blocks fn' = blocks fn @ [StoreOp (out_ptrs ?c) v (store_mask ?c)]"
      by simp
    ultimately show ?thesis
      using t l r by blast
  qed
qed (auto simp: dot_ty_of_def)

theorem cast_and_accumulator_types_witness:
  "(\<exists>ld fn' ptrs v mask lb ub step lhs_init rhs_init lhs_inc rhs_inc l r
       lhs_mask' lhs_other rhs_mask' rhs_other.
      MatMulImpl int32_t example_env (row_major_analysis F16 70 100 48)
        (row_major_dot F16 F16 70 100 48) (example_fn F16Type) (example_config 32 16 32 4)
        100000 = Some (Ok ld, fn') \<and>
      blocks fn' = blocks (example_fn F16Type) @ [StoreOp ptrs v mask] \<and>
      Cast F32Type
        (getResult
           (ForOp lb ub step
              [lhs_init, rhs_init,
               ConstantTensorOp F32Type 0
                 [s32 (block_m (example_config 32 16 32 4)),
                  s32 (block_n (example_config 32 16 32 4))]]
              [lhs_inc, rhs_inc,
               DotOp l r (IterArg 2) (tensor_float_32_execution_enabled example_env)]) 2)
        F16Type = Some v \<and>
      Cast F16Type (LoadOp (IterArg 0) lhs_mask' lhs_other) F16Type = Some l \<and>
      Cast F16Type (LoadOp (IterArg 1) rhs_mask' rhs_other) F16Type = Some r)
   \<and> dot_ty_of F32Type F16Type = F32Type
   \<and> dot_ty_of I8Type BF16Type = BF16Type
   \<and> dot_ty_of F16Type F64Type = F16Type
   \<and> dot_ty_of I8Type F64Type = F32Type"
proof (intro conjI)
  let ?an = "row_major_analysis F16 70 100 48"
  let ?dot = "row_major_dot F16 F16 70 100 48"
  let ?cfg = "example_config 32 16 32 4"
  from example_MatMulImpl obtain ld fn' where
    a: "MatMulImpl int32_t example_env ?an ?dot (example_fn F16Type) ?cfg 100000
      = Some (Ok ld, fn')"
    by auto
  from cast_and_accumulator_types [of int32_t example_env ?an ?dot "example_fn F16Type" ?cfg
      100000 ld fn', THEN conjunct1, THEN mp, OF a]
  obtain lhs_ty rhs_ty root_ty acc_ty ptrs v mask lb ub step lhs_init rhs_init lhs_inc rhs_inc
      l r lhs_mask' lhs_other rhs_mask' rhs_other where
    c1: "TritonType (parameter_element_type (OperandToParameter ?an 0)) = Some lhs_ty"
    and c2: "TritonType (parameter_element_type (OperandToParameter ?an 1)) = Some rhs_ty"
    and c3: "TritonType (element_type (shape ?dot)) = Some root_ty"
    and c4: "blocks fn' = blocks (example_fn F16Type) @ [StoreOp ptrs v mask]"
    and c5: "Cast acc_ty
           (getResult
              (ForOp lb ub step
                 [lhs_init, rhs_init,
                  ConstantTensorOp acc_ty 0 [s32 (block_m ?cfg), s32 (block_n ?cfg)]]
                 [lhs_inc, rhs_inc,
                  DotOp l r (IterArg 2) (tensor_float_32_execution_enabled example_env)]) 2)
           root_ty = Some v"
    and c6: "Cast lhs_ty (LoadOp (IterArg 0) lhs_mask' lhs_other) (dot_ty_of lhs_ty rhs_ty)
               = Some l"
    and c7: "Cast rhs_ty (LoadOp (IterArg 1) rhs_mask' rhs_other) (dot_ty_of lhs_ty rhs_ty)
               = Some r"
    and c8: "lhs_ty \<noteq> F64Type \<or> rhs_ty \<noteq> F64Type \<or> root_ty \<noteq> F64Type \<longrightarrow> acc_ty = F32Type"
    by (elim exE conjE) (rule that, assumption+)
  from c1 c2 c3 have t: "lhs_ty = F16Type" "rhs_ty = F16Type" "root_ty = F16Type"
    by (simp_all add: row_major_analysis_def row_major_dot_def)
  with c8 have acc: "acc_ty = F32Type" by simp
  have d: "dot_ty_of F16Type F16Type = F16Type" by (simp add: dot_ty_of_def)
  note c5' = c5 [unfolded acc t] and c6' = c6 [unfolded t d] and c7' = c7 [unfolded t d]
  show "\<exists>ld fn' ptrs v mask lb ub step lhs_init rhs_init lhs_inc rhs_inc l r
       lhs_mask' lhs_other rhs_mask' rhs_other.
      MatMulImpl int32_t example_env ?an ?dot (example_fn F16Type) ?cfg 100000
        = Some (Ok ld, fn') \<and>
      blocks fn' = blocks (example_fn F16Type) @ [StoreOp ptrs v mask] \<and>
      Cast F32Type
        (getResult
           (ForOp lb ub step
              [lhs_init, rhs_init,
               ConstantTensorOp F32Type 0 [s32 (block_m ?cfg), s32 (block_n ?cfg)]]
              [lhs_inc, rhs_inc,
               DotOp l r (IterArg 2) (tensor_float_32_execution_enabled example_env)]) 2)
        F16Type = Some v \<and>
      Cast F16Type (LoadOp (IterArg 0) lhs_mask' lhs_other) F16Type = Some l \<and>
      Cast F16Type (LoadOp (IterArg 1) rhs_mask' rhs_other) F16Type = Some r"
    by (intro exI conjI) (rule a c4 c5' c6' c7')+
next
  show "dot_ty_of F32Type F16Type = F32Type"
    using cast_and_accumulator_types [where lhs_ty = F32Type and rhs_ty = F16Type] by simp
  show "dot_ty_of I8Type BF16Type = BF16Type"
    using cast_and_accumulator_types [where lhs_ty = I8Type and rhs_ty = BF16Type] by simp
  show "dot_ty_of F16Type F64Type = F16Type"
    using cast_and_accumulator_types [where lhs_ty = F16Type and rhs_ty = F64Type] by simp
  show "dot_ty_of I8Type F64Type = F32Type"
    using cast_and_accumulator_types [where lhs_ty = I8Type and rhs_ty = F64Type] by simp
qed

text \<open>
  Two operands of type f16 with an output of type f16 accumulate in f32, not in f16, while
  the tiles are cast to f16 whatever the output is; and an operand of type bf16 with an
  integer operand makes bf16 the type of the casts, although not both operands are of a
  16-bit float type.
\<close>

theorem accumulation_type_counterexample:
  "acc_ty_of F16Type (dot_ty_of F16Type F16Type) = F32Type \<and>
   dot_ty_of F16Type F16Type = F16Type \<and>
   dot_ty_of BF16Type I8Type = BF16Type"
  by (simp add: acc_ty_of_def dot_ty_of_def)

text \<open>
  C3. The check of the grid size, at a grid of \<open>65536\<^sup>2\<close> blocks. The batched
  product \<open>[65536, 4096, 32] \<times> [65536, 32, 4096]\<close> with blocks of \<open>16 \<times> 16\<close> has 65536 batches
  and \<open>256 \<times> 256\<close> tiles, so \<open>batch_size * grid_m * grid_n = 65536\<^sup>2\<close>. The product that
  \<^verbatim>\<open>CHECK_LT\<close> compares with \<open>65536\<^sup>2\<close> is an \<^verbatim>\<open>int\<close>: here it wraps around to 0, the check
  passes, and \<^verbatim>\<open>MatMul\<close> returns the launch grid \<open>(65536, 65536, 1)\<close> with the store added to
  the kernel function, where the comment of the check says that the lowering has to give
  up. Whatever the three factors are, the compared product is below \<open>65536\<^sup>2\<close>.
\<close>

theorem grid_limit_check_passes:
  "map_option (\<lambda>d. (batch_size d, m_minor d, dim_n d))
     (operand_dims int64_t (batched_analysis F16 65536 4096 32 4096)
        (batched_dot F16 65536 4096 32 4096) (example_config 16 16 32 4))
     = Some (65536, 4096, 4096)
   \<and> ceil_div 4096 16 = Some 256
   \<and> (65536 :: int) * 256 * 256 \<ge> 65536 * 65536
   \<and> map_option (\<lambda>r. (fst r, length (blocks (snd r))))
        (MatMul example_env (batched_analysis F16 65536 4096 32 4096)
           (batched_dot F16 65536 4096 32 4096) (example_fn F16Type)
           (example_config 16 16 32 4) 100000)
     = Some (Ok \<lparr> block_counts = (65536, 65536, 1), thread_counts_per_block = (128, 1, 1),
                 shared_mem_bytes = 0 \<rparr>, 1)
   \<and> s32 (s32 (65536 * 256) * 256) = 0
   \<and> s32 (s32 (b * grid_m) * grid_n) < kBlockCountYZLimit * kBlockCountYZLimit"
  using grid_check_never_fails [of b grid_m grid_n] example_grid_overflow_dims
    example_grid_limit
  by (simp add: ceil_div_def s32_def)

text \<open>
  C4, as the code has it. The batch count goes to the x axis of the grid, the one without the
  ceiling, exactly when it is at least 65536; otherwise the fused tile count \<open>grid_m * grid_n\<close>
  goes to the x axis and the batch count, then below 65536, to the y axis. \<open>split_k\<close> is always
  on the z axis. For \<open>grid_m = 5\<close>, \<open>grid_n = 3\<close> and 70000 batches the grid is
  \<open>(70000, 15, split_k)\<close>.
\<close>

theorem launch_grid_placement:
  "(MatMulImpl I env analysis dot_instr fn config shmem_budget = Some (Ok ld, fn') \<longrightarrow>
      (\<exists>d grid_m grid_n.
         operand_dims I analysis dot_instr config = Some d \<and>
         ceil_div (m_minor d) (s32 (block_m config)) = Some grid_m \<and>
         ceil_div (dim_n d) (s32 (block_n config)) = Some grid_n \<and>
         block_counts ld =
           (if batch_size d \<ge> 65536
            then (batch_size d, s32 (grid_m * grid_n), split_k config)
            else (s32 (grid_m * grid_n), batch_size d, split_k config)) \<and>
         (batch_size d < 65536 \<longrightarrow> fst (snd (block_counts ld)) < 65536)))
   \<and> map_option fst (MatMulImpl int32_t example_env (batched_analysis F16 70000 80 32 48)
         (batched_dot F16 70000 80 32 48) (example_fn F16Type) (example_config 16 16 32 4)
         100000)
       = Some (Ok \<lparr> block_counts = (70000, 15, 1), thread_counts_per_block = (128, 1, 1),
                   shared_mem_bytes = 0 \<rparr>)"
proof (intro conjI impI)
  assume "MatMulImpl I env analysis dot_instr fn config shmem_budget = Some (Ok ld, fn')"
  then show "\<exists>d grid_m grid_n.
         operand_dims I analysis dot_instr config = Some d \<and>
         ceil_div (m_minor d) (s32 (block_m config)) = Some grid_m \<and>
         ceil_div (dim_n d) (s32 (block_n config)) = Some grid_n \<and>
         block_counts ld =
           (if batch_size d \<ge> 65536
            then (batch_size d, s32 (grid_m * grid_n), split_k config)
            else (s32 (grid_m * grid_n), batch_size d, split_k config)) \<and>
         (batch_size d < 65536 \<longrightarrow> fst (snd (block_counts ld)) < 65536)"
    by (elim MatMulImpl_OkE) (simp add: kBlockCountYZLimit_def)
qed (rule example_batched)

theorem launch_grid_placement_witness:
  "\<exists>ld fn' d grid_m grid_n.
     MatMulImpl int32_t example_env (batched_analysis F16 100 80 32 48)
       (batched_dot F16 100 80 32 48) (example_fn F16Type) (example_config 16 16 32 4) 100000
       = Some (Ok ld, fn') \<and>
     operand_dims int32_t (batched_analysis F16 100 80 32 48) (batched_dot F16 100 80 32 48)
       (example_config 16 16 32 4) = Some d \<and>
     ceil_div (m_minor d) (s32 (block_m (example_config 16 16 32 4))) = Some grid_m \<and>
     ceil_div (dim_n d) (s32 (block_n (example_config 16 16 32 4))) = Some grid_n \<and>
     block_counts ld =
       (if batch_size d \<ge> 65536
        then (batch_size d, s32 (grid_m * grid_n), split_k (example_config 16 16 32 4))
        else (s32 (grid_m * grid_n), batch_size d, split_k (example_config 16 16 32 4))) \<and>
     block_counts ld = (15, 100, 1)"
proof -
  from example_small_batch obtain ld fn' where
    a: "MatMulImpl int32_t example_env (batched_analysis F16 100 80 32 48)
      (batched_dot F16 100 80 32 48) (example_fn F16Type) (example_config 16 16 32 4) 100000
      = Some (Ok ld, fn')" and b: "block_counts ld = (15, 100, 1)"
    by auto
  from launch_grid_placement [of int32_t example_env "batched_analysis F16 100 80 32 48"
      "batched_dot F16 100 80 32 48" "example_fn F16Type" "example_config 16 16 32 4"
      100000 ld fn'] a b
  show ?thesis by blast
qed

text \<open>
  With 100 batches and 15 fused tiles the larger count, the batch count, is on the y axis, the
  one with the ceiling, and the smaller one on the x axis.
\<close>

theorem launch_grid_placement_counterexample:
  "map_option fst (MatMulImpl int32_t example_env (batched_analysis F16 100 80 32 48)
      (batched_dot F16 100 80 32 48) (example_fn F16Type) (example_config 16 16 32 4) 100000)
   = Some (Ok \<lparr> block_counts = (15, 100, 1), thread_counts_per_block = (128, 1, 1),
               shared_mem_bytes = 0 \<rparr>)
   \<and> max (100 :: int) 15 \<noteq> 15"
  by (simp add: example_small_batch)

text \<open>
  C5. \<^verbatim>\<open>MatMul\<close> runs \<^verbatim>\<open>MatMulImpl\<close> with 32-bit indexes if and only if the element counts
  of the two operands and the element count of the output times \<open>split_k\<close> are all at most
  \<open>INT_MAX\<close>, and with 64-bit indexes otherwise. In the kernel of a successful lowering every
  index that is added to a pointer is then of that one width: the four offsets of the address
  tile of the store (batch, split, rows, columns) and the six offsets of the stored value's
  loop (the batch offset and the tile offsets of either operand, and the two advances of the
  loop body) are of type \<open>i32\<close> in the first case and of type \<open>i64\<close> in the second, the program
  ids and ranges being sign-extended before they meet a 64-bit stride; the mask of the store
  has no address. The batched product with an lhs operand of \<open>3 * 10\<^sup>9\<close> elements and an rhs
  operand of \<open>4.8 * 10\<^sup>7\<close> elements is lowered with ten 64-bit offsets, the plain product with
  operands of \<open>10\<^sup>6\<close> elements with ten 32-bit offsets.
\<close>

theorem index_width_selection:
  "MatMul env analysis dot_instr fn config shmem_budget
     = MatMulImpl (if ElementsIn (operand0 dot_instr) \<le> INT_MAX \<and>
                      ElementsIn (operand1 dot_instr) \<le> INT_MAX \<and>
                      ElementsIn (shape dot_instr) * split_k config \<le> INT_MAX
                   then int32_t else int64_t)
         env analysis dot_instr fn config shmem_budget
   \<and> (MatMul env analysis dot_instr fn config shmem_budget = Some (Ok ld, fn') \<longrightarrow>
        (\<exists>ptrs v mask.
           blocks fn' = blocks fn @ [StoreOp ptrs v mask] \<and>
           addptr_offsets mask = [] \<and>
           map index_type (addptr_offsets ptrs)
             = replicate 4 (Some (if ElementsIn (operand0 dot_instr) \<le> INT_MAX \<and>
                                     ElementsIn (operand1 dot_instr) \<le> INT_MAX \<and>
                                     ElementsIn (shape dot_instr) * split_k config \<le> INT_MAX
                                  then I32Type else I64Type)) \<and>
           map index_type (addptr_offsets v)
             = replicate 6 (Some (if ElementsIn (operand0 dot_instr) \<le> INT_MAX \<and>
                                     ElementsIn (operand1 dot_instr) \<le> INT_MAX \<and>
                                     ElementsIn (shape dot_instr) * split_k config \<le> INT_MAX
                                  then I32Type else I64Type))))
   \<and> ElementsIn (operand0 (batched_dot F16 1000 3000 1000 48)) = 3000000000
   \<and> ElementsIn (operand1 (batched_dot F16 1000 3000 1000 48)) = 48000000
   \<and> map_option (\<lambda>r. map offset_types (blocks (snd r)))
        (MatMul example_env (batched_analysis F16 1000 3000 1000 48)
           (batched_dot F16 1000 3000 1000 48) (example_fn F16Type) (example_config 16 16 32 4)
           100000)
     = Some [replicate 10 (Some I64Type)]
   \<and> ElementsIn (operand0 (row_major_dot F16 F16 1000 1000 1000)) = 1000000
   \<and> map_option (\<lambda>r. map offset_types (blocks (snd r)))
        (MatMul example_env (row_major_analysis F16 1000 1000 1000)
           (row_major_dot F16 F16 1000 1000 1000) (example_fn F16Type)
           (example_config 32 16 32 4) 100000)
     = Some [replicate 10 (Some I32Type)]"
proof (intro conjI impI)
  let ?narrow = "ElementsIn (operand0 dot_instr) \<le> INT_MAX \<and>
                 ElementsIn (operand1 dot_instr) \<le> INT_MAX \<and>
                 ElementsIn (shape dot_instr) * split_k config \<le> INT_MAX"
  show m: "MatMul env analysis dot_instr fn config shmem_budget
     = MatMulImpl (if ?narrow then int32_t else int64_t)
         env analysis dot_instr fn config shmem_budget"
    by (simp add: MatMul_def use_64bit_indexing_def not_less not_le)
  assume "MatMul env analysis dot_instr fn config shmem_budget = Some (Ok ld, fn')"
  with m have r: "MatMulImpl (if ?narrow then int32_t else int64_t)
         env analysis dot_instr fn config shmem_budget = Some (Ok ld, fn')"
    by simp
  have t: "(case (if ?narrow then int32_t else int64_t) of
              int32_t \<Rightarrow> I32Type | int64_t \<Rightarrow> I64Type)
           = (if ?narrow then I32Type else I64Type)"
    by simp
  note o = MatMulImpl_offsets [OF r, unfolded t]
  show "\<exists>ptrs v mask.
           blocks fn' = blocks fn @ [StoreOp ptrs v mask] \<and>
           addptr_offsets mask = [] \<and>
           map index_type (addptr_offsets ptrs)
             = replicate 4 (Some (if ?narrow then I32Type else I64Type)) \<and>
           map index_type (addptr_offsets v)
             = replicate 6 (Some (if ?narrow then I32Type else I64Type))"
    by (rule o)
qed (simp add: ElementsIn_def batched_dot_def, simp add: ElementsIn_def batched_dot_def,
    rule example_wide_offsets, simp add: ElementsIn_def row_major_dot_def,
    rule example_narrow_offsets)

theorem index_width_selection_witness:
  "\<exists>ld fn' ptrs v mask.
     MatMul example_env (batched_analysis F16 1000 3000 1000 48)
       (batched_dot F16 1000 3000 1000 48) (example_fn F16Type) (example_config 16 16 32 4)
       100000 = Some (Ok ld, fn') \<and>
     blocks fn' = blocks (example_fn F16Type) @ [StoreOp ptrs v mask] \<and>
     map index_type (addptr_offsets ptrs) = replicate 4 (Some I64Type) \<and>
     map index_type (addptr_offsets v) = replicate 6 (Some I64Type)"
proof -
  let ?dot = "batched_dot F16 1000 3000 1000 48"
  let ?cfg = "example_config 16 16 32 4"
  from example_wide obtain ld fn' where
    a: "MatMul example_env (batched_analysis F16 1000 3000 1000 48) ?dot (example_fn F16Type)
          ?cfg 100000 = Some (Ok ld, fn')"
    by auto
  have w: "(if ElementsIn (operand0 ?dot) \<le> INT_MAX \<and> ElementsIn (operand1 ?dot) \<le> INT_MAX \<and>
               ElementsIn (shape ?dot) * split_k ?cfg \<le> INT_MAX
            then I32Type else I64Type) = I64Type"
    by (simp add: ElementsIn_def batched_dot_def INT_MAX_def)
  from index_width_selection [of example_env "batched_analysis F16 1000 3000 1000 48" ?dot
      "example_fn F16Type" ?cfg 100000 ld fn', THEN conjunct2, THEN conjunct1, THEN mp, OF a]
  obtain ptrs v mask where
    "blocks fn' = blocks (example_fn F16Type) @ [StoreOp ptrs v mask]"
    "map index_type (addptr_offsets ptrs) = replicate 4 (Some I64Type)"
    "map index_type (addptr_offsets v) = replicate 6 (Some I64Type)"
    unfolding w by blast
  with a show ?thesis by blast
qed

text \<open>
  The shared memory budget within the range of 32-bit arithmetic. When the estimate
  \<open>(block_m * bits(lhs) + block_n * bits(rhs)) * block_k * num_stages / 8\<close>
  exceeds the shared memory budget, \<^verbatim>\<open>MatMulImpl\<close> returns a \<^verbatim>\<open>ResourceExhausted\<close> status
  whose message names the metric and both values, and returns the kernel function as it was
  given: no operation has been added to its body. (The operation and the configuration pass
  the checks that come before the estimate, and the estimate is computed without 32-bit
  overflow.) \<^verbatim>\<open>TritonWrapper\<close> hands a \<^verbatim>\<open>ResourceExhausted\<close> status of its generator on
  and leaves the LLVM module as it was. After a successful generator and lowering, the shared
  memory usage that the lowered module reports is compared with the same budget, the device's
  \<^verbatim>\<open>shared_memory_per_block_optin\<close>; when it is larger, \<^verbatim>\<open>TritonWrapper\<close> returns the
  \<^verbatim>\<open>ResourceExhausted\<close> status with the message \<open>Shared memory size limit exceeded.\<close> and
  leaves the LLVM module as it was.
\<close>

lemma shared_memory_budget_in_range:
  "(TritonType (parameter_element_type (OperandToParameter analysis 0)) = Some lhs_ty \<and>
    TritonType (parameter_element_type (OperandToParameter analysis 1)) = Some rhs_ty \<and>
    TritonType (element_type (shape dot_instr)) = Some root_ty \<and>
    operand_dims I analysis dot_instr config = Some d \<and>
    output_strides I dot_instr config d = Some st \<and>
    16 \<le> block_m config \<and> block_m config \<le> INT_MAX \<and>
    16 \<le> block_k config \<and> block_k config \<le> INT_MAX \<and>
    16 \<le> block_n config \<and> block_n config \<le> INT_MAX \<and>
    0 \<le> num_stages config \<and>
    (block_m config * getIntOrFloatBitWidth lhs_ty +
     block_n config * getIntOrFloatBitWidth rhs_ty) * block_k config < 4294967296 \<and>
    (block_m config * getIntOrFloatBitWidth lhs_ty +
     block_n config * getIntOrFloatBitWidth rhs_ty) * block_k config * num_stages config div 8
      \<le> INT_MAX \<and>
    shmem_budget <
      (block_m config * getIntOrFloatBitWidth lhs_ty +
       block_n config * getIntOrFloatBitWidth rhs_ty) * block_k config * num_stages config div 8
    \<longrightarrow> MatMulImpl I env analysis dot_instr fn config shmem_budget
        = Some (ResourceExhausted
                  (''Requires too much shared memory: '' @
                   format_d ((block_m config * getIntOrFloatBitWidth lhs_ty +
                              block_n config * getIntOrFloatBitWidth rhs_ty) * block_k config *
                             num_stages config div 8) @
                   '' > '' @ format_d shmem_budget), fn))
   \<and> (complexity_heuristic_value config = Some v \<and> v \<le> 9000 \<and>
       (root_instruction hlo_computation = HloDot dot_instr \<or>
        root_instruction hlo_computation = HloBitcast bitcast_shape (HloDot dot_instr)) \<and>
       kernel_signature fn_name hlo_computation = Some fn \<and>
       generator dot_instr fn config (shared_memory_per_block_optin device_info)
         = Some (ResourceExhausted msg, fn')
       \<longrightarrow> TritonWrapper lowering fn_name hlo_computation device_info config llvm_module
             generator = Some (ResourceExhausted msg, llvm_module))
   \<and> (complexity_heuristic_value config = Some v \<and> v \<le> 9000 \<and>
       (root_instruction hlo_computation = HloDot dot_instr \<or>
        root_instruction hlo_computation = HloBitcast bitcast_shape (HloDot dot_instr)) \<and>
       kernel_signature fn_name hlo_computation = Some fn \<and>
       generator dot_instr fn config (shared_memory_per_block_optin device_info)
         = Some (Ok ld, fn') \<and>
       verify_succeeded lowering (fn'\<lparr>blocks := blocks fn' @ [ReturnOp]\<rparr>) \<and>
       pipeline_succeeded lowering (fn'\<lparr>blocks := blocks fn' @ [ReturnOp]\<rparr>) \<and>
       shared_memory_per_block_optin device_info
         < s32 (triton_gpu_shared lowering (fn'\<lparr>blocks := blocks fn' @ [ReturnOp]\<rparr>))
       \<longrightarrow> TritonWrapper lowering fn_name hlo_computation device_info config llvm_module
             generator
           = Some (ResourceExhausted ''Shared memory size limit exceeded.'', llvm_module))"
proof (intro conjI impI)
  let ?f = "(block_m config * getIntOrFloatBitWidth lhs_ty +
       block_n config * getIntOrFloatBitWidth rhs_ty) * block_k config * num_stages config div 8"
  assume h: "TritonType (parameter_element_type (OperandToParameter analysis 0)) = Some lhs_ty \<and>
    TritonType (parameter_element_type (OperandToParameter analysis 1)) = Some rhs_ty \<and>
    TritonType (element_type (shape dot_instr)) = Some root_ty \<and>
    operand_dims I analysis dot_instr config = Some d \<and>
    output_strides I dot_instr config d = Some st \<and>
    16 \<le> block_m config \<and> block_m config \<le> INT_MAX \<and>
    16 \<le> block_k config \<and> block_k config \<le> INT_MAX \<and>
    16 \<le> block_n config \<and> block_n config \<le> INT_MAX \<and>
    0 \<le> num_stages config \<and>
    (block_m config * getIntOrFloatBitWidth lhs_ty +
     block_n config * getIntOrFloatBitWidth rhs_ty) * block_k config < 4294967296 \<and>
    (block_m config * getIntOrFloatBitWidth lhs_ty +
     block_n config * getIntOrFloatBitWidth rhs_ty) * block_k config * num_stages config div 8
      \<le> INT_MAX \<and>
    shmem_budget < ?f"
  then have b: "s32 (block_m config) = block_m config" "s32 (block_k config) = block_k config"
    "s32 (block_n config) = block_n config"
    by (simp_all add: s32_id INT_MAX_def)
  from h have r: "required_shmem_size (block_m config) (block_n config) (block_k config)
      lhs_ty rhs_ty config = ?f"
    by (intro required_shmem_size_exact) (simp_all add: INT_MAX_def)
  from h b r have "MatMulImpl I env analysis dot_instr fn config shmem_budget
           = Some (ResourceExhausted
                     (shmem_message
                        (required_shmem_size (s32 (block_m config)) (s32 (block_n config))
                           (s32 (block_k config)) lhs_ty rhs_ty config) shmem_budget), fn)"
    by (intro MatMulImpl_shmem_exhausted [where d = d and st = st and root_ty = root_ty])
       simp_all
  with b r show "MatMulImpl I env analysis dot_instr fn config shmem_budget
        = Some (ResourceExhausted
                  (''Requires too much shared memory: '' @ format_d ?f @
                   '' > '' @ format_d shmem_budget), fn)"
    by (simp add: shmem_message_def)
next
  assume "complexity_heuristic_value config = Some v \<and> v \<le> 9000 \<and>
       (root_instruction hlo_computation = HloDot dot_instr \<or>
        root_instruction hlo_computation = HloBitcast bitcast_shape (HloDot dot_instr)) \<and>
       kernel_signature fn_name hlo_computation = Some fn \<and>
       generator dot_instr fn config (shared_memory_per_block_optin device_info)
         = Some (ResourceExhausted msg, fn')"
  then show "TritonWrapper lowering fn_name hlo_computation device_info config llvm_module
             generator = Some (ResourceExhausted msg, llvm_module)"
    by (intro TritonWrapper_generator_exhausted [where v = v and fn = fn and fn' = fn'
          and dot_instr = dot_instr and bitcast_shape = bitcast_shape]) simp_all
next
  assume "complexity_heuristic_value config = Some v \<and> v \<le> 9000 \<and>
       (root_instruction hlo_computation = HloDot dot_instr \<or>
        root_instruction hlo_computation = HloBitcast bitcast_shape (HloDot dot_instr)) \<and>
       kernel_signature fn_name hlo_computation = Some fn \<and>
       generator dot_instr fn config (shared_memory_per_block_optin device_info)
         = Some (Ok ld, fn') \<and>
       verify_succeeded lowering (fn'\<lparr>blocks := blocks fn' @ [ReturnOp]\<rparr>) \<and>
       pipeline_succeeded lowering (fn'\<lparr>blocks := blocks fn' @ [ReturnOp]\<rparr>) \<and>
       shared_memory_per_block_optin device_info
         < s32 (triton_gpu_shared lowering (fn'\<lparr>blocks := blocks fn' @ [ReturnOp]\<rparr>))"
  then show "TritonWrapper lowering fn_name hlo_computation device_info config llvm_module
             generator
           = Some (ResourceExhausted ''Shared memory size limit exceeded.'', llvm_module)"
    by (intro TritonWrapper_measured_exhausted [where v = v and fn = fn and fn' = fn'
          and dot_instr = dot_instr and bitcast_shape = bitcast_shape and ld = ld]) simp_all
qed

lemma shared_memory_budget_example:
  "MatMulImpl int32_t example_env (row_major_analysis F16 70 100 48)
      (row_major_dot F16 F16 70 100 48) (example_fn F16Type) (example_config 32 16 32 4) 1000
     = Some (ResourceExhausted ''Requires too much shared memory: 6144 > 1000'',
             example_fn F16Type)
   \<and> TritonWrapper (example_lowering 0) ''triton_gemm'' (example_computation F16 70 100 48)
        \<lparr> shared_memory_per_block_optin = 1000 \<rparr> (example_config 32 16 32 4) []
        (MatMul example_env (row_major_analysis F16 70 100 48))
     = Some (ResourceExhausted ''Requires too much shared memory: 6144 > 1000'', [])
   \<and> TritonWrapper (example_lowering 200000) ''triton_gemm''
        (example_computation F16 70 100 48) \<lparr> shared_memory_per_block_optin = 100000 \<rparr>
        (example_config 32 16 32 4) []
        (MatMul example_env (row_major_analysis F16 70 100 48))
     = Some (ResourceExhausted ''Shared memory size limit exceeded.'', [])"
proof (intro conjI)
  note t = shared_memory_budget_in_range [of "row_major_analysis F16 70 100 48" F16Type F16Type
      "row_major_dot F16 F16 70 100 48" F16Type int32_t "example_config 32 16 32 4"
      example_operand_dims example_out_strides 1000
      example_env "example_fn F16Type"]
  have "MatMulImpl int32_t example_env (row_major_analysis F16 70 100 48)
      (row_major_dot F16 F16 70 100 48) (example_fn F16Type) (example_config 32 16 32 4) 1000
     = Some (ResourceExhausted
          (''Requires too much shared memory: '' @
           format_d ((block_m (example_config 32 16 32 4) * getIntOrFloatBitWidth F16Type +
                      block_n (example_config 32 16 32 4) * getIntOrFloatBitWidth F16Type) *
                     block_k (example_config 32 16 32 4) *
                     num_stages (example_config 32 16 32 4) div 8) @
           '' > '' @ format_d 1000), example_fn F16Type)"
    by (rule t [THEN conjunct1, THEN mp])
       (simp add: example_dims example_strides, simp add: row_major_analysis_def
          row_major_dot_def example_config_def INT_MAX_def)
  then show a: "MatMulImpl int32_t example_env (row_major_analysis F16 70 100 48)
      (row_major_dot F16 F16 70 100 48) (example_fn F16Type) (example_config 32 16 32 4) 1000
     = Some (ResourceExhausted ''Requires too much shared memory: 6144 > 1000'',
             example_fn F16Type)"
    by (simp add: example_config_def format_d_examples)
  show "TritonWrapper (example_lowering 0) ''triton_gemm'' (example_computation F16 70 100 48)
        \<lparr> shared_memory_per_block_optin = 1000 \<rparr> (example_config 32 16 32 4) []
        (MatMul example_env (row_major_analysis F16 70 100 48))
     = Some (ResourceExhausted ''Requires too much shared memory: 6144 > 1000'', [])"
    by (rule shared_memory_budget_in_range [THEN conjunct2, THEN conjunct1, THEN mp,
          where v3 = 512 and dot_instr3 = "row_major_dot F16 F16 70 100 48"
            and fn'3 = "example_fn F16Type" and fn3 = "example_fn F16Type"])
       (simp add: example_complexity example_kernel_signature example_MatMul a
          example_root)
  from example_MatMulImpl obtain ld fn' where
    b: "MatMulImpl int32_t example_env (row_major_analysis F16 70 100 48)
      (row_major_dot F16 F16 70 100 48) (example_fn F16Type) (example_config 32 16 32 4) 100000
      = Some (Ok ld, fn')"
    by auto
  show "TritonWrapper (example_lowering 200000) ''triton_gemm''
        (example_computation F16 70 100 48) \<lparr> shared_memory_per_block_optin = 100000 \<rparr>
        (example_config 32 16 32 4) []
        (MatMul example_env (row_major_analysis F16 70 100 48))
     = Some (ResourceExhausted ''Shared memory size limit exceeded.'', [])"
    by (rule shared_memory_budget_in_range [THEN conjunct2, THEN conjunct2, THEN mp,
          where v3 = 512 and dot_instr3 = "row_major_dot F16 F16 70 100 48"
            and fn'3 = fn' and fn3 = "example_fn F16Type" and ld3 = ld])
       (simp add: example_complexity example_kernel_signature example_MatMul b
          example_root example_lowering_def s32_def)
qed

text \<open>
  C6. The estimate of the shared memory, at a configuration whose estimate exceeds the budget.
  With blocks of \<open>4096 \<times> 4096 \<times> 65536\<close>, two stages and operands of type f32 the estimate
  \<open>(block_m * bits(lhs) + block_n * bits(rhs)) * block_k * num_stages / 8\<close> is \<open>2\<^sup>3\<^sup>2\<close>, more than
  the budget of 100000 bytes. The product with \<open>block_k\<close> is computed in \<^verbatim>\<open>unsigned\<close>
  arithmetic and wraps around to 0, so \<^verbatim>\<open>required_shmem_size\<close> is 0 and \<^verbatim>\<open>MatMul\<close> returns
  launch dimensions with the store added to the kernel function, not a
  \<^verbatim>\<open>ResourceExhausted\<close> status.
\<close>

theorem shared_memory_estimate_wraps:
  "(block_m (example_config 4096 4096 65536 4) * getIntOrFloatBitWidth F32Type +
    block_n (example_config 4096 4096 65536 4) * getIntOrFloatBitWidth F32Type) *
     block_k (example_config 4096 4096 65536 4) *
     num_stages (example_config 4096 4096 65536 4) div 8 = 4294967296
   \<and> (100000 :: int) < 4294967296
   \<and> required_shmem_size 4096 4096 65536 F32Type F32Type (example_config 4096 4096 65536 4)
       = 0
   \<and> map_option (\<lambda>r. (fst r, length (blocks (snd r))))
        (MatMul example_env (row_major_analysis F32 70 100 48)
           (row_major_dot F32 F32 70 100 48) (example_fn F32Type)
           (example_config 4096 4096 65536 4) 100000)
     = Some (Ok \<lparr> block_counts = (1, 1, 1), thread_counts_per_block = (128, 1, 1),
                 shared_mem_bytes = 0 \<rparr>, 1)"
  using example_estimate_wraps
  by (simp add: example_config_def required_shmem_size_def u32_def s32_def tdiv_def)

text \<open>
  C7. A configuration whose heuristic value \<open>(block_m * block_n + (block_m + block_n) * block_k)
  / num_warps\<close> (the integer quotient that the code computes) is greater than 9000 is rejected by
  \<^verbatim>\<open>TritonWrapper\<close> with a \<^verbatim>\<open>ResourceExhausted\<close> result, whatever the computation, the
  lowering and the generator are: the check comes before the kernel function is built and
  before the generator is called, and the LLVM module is returned as it was. For
  \<open>block_m = 256\<close>, \<open>block_n = 256\<close>, \<open>block_k = 64\<close>, \<open>num_warps = 4\<close> the heuristic value
  is 24576, which exceeds 9000 and is rejected.
\<close>

theorem complexity_heuristic_rejects:
  "(0 \<le> block_m config \<and> 0 \<le> block_n config \<and> 0 \<le> block_k config \<and> 0 < num_warps config \<and>
    (block_m config * block_n config + (block_m config + block_n config) * block_k config)
       div num_warps config > 9000
    \<longrightarrow> TritonWrapper lowering fn_name hlo_computation device_info config llvm_module generator
        = Some (ResourceExhausted (complexity_message
                  ((block_m config * block_n config +
                    (block_m config + block_n config) * block_k config) div num_warps config)),
                llvm_module))
   \<and> complexity_heuristic_value (example_config 256 256 64 4) = Some 24576
   \<and> TritonWrapper lowering fn_name hlo_computation device_info (example_config 256 256 64 4)
        llvm_module generator
      = Some (ResourceExhausted ''Tiling complexity heuristic exceeded: 24576 > 9000'',
              llvm_module)"
proof (intro conjI impI)
  assume h: "0 \<le> block_m config \<and> 0 \<le> block_n config \<and> 0 \<le> block_k config \<and>
    0 < num_warps config \<and>
    (block_m config * block_n config + (block_m config + block_n config) * block_k config)
       div num_warps config > 9000"
  then have "0 \<le> block_m config * block_n config +
             (block_m config + block_n config) * block_k config"
    by simp
  with h have "complexity_heuristic_value config =
      Some ((block_m config * block_n config +
             (block_m config + block_n config) * block_k config) div num_warps config)"
    by (simp add: complexity_heuristic_value_def tdiv_nonneg)
  with h show "TritonWrapper lowering fn_name hlo_computation device_info config
      llvm_module generator
      = Some (ResourceExhausted (complexity_message
                ((block_m config * block_n config +
                  (block_m config + block_n config) * block_k config) div num_warps config)),
              llvm_module)"
    by (simp add: TritonWrapper_def kComplexityHeuristicLimit_def)
next
  show v: "complexity_heuristic_value (example_config 256 256 64 4) = Some 24576"
    by (simp add: complexity_heuristic_value_def example_config_def tdiv_def)
  with format_d_examples show "TritonWrapper lowering fn_name hlo_computation device_info
      (example_config 256 256 64 4) llvm_module generator
      = Some (ResourceExhausted ''Tiling complexity heuristic exceeded: 24576 > 9000'',
              llvm_module)"
    by (simp add: TritonWrapper_def kComplexityHeuristicLimit_def complexity_message_def)
qed

theorem complexity_heuristic_rejects_witness:
  "TritonWrapper (example_lowering 0) ''triton_gemm'' (example_computation F16 70 100 48)
     \<lparr> shared_memory_per_block_optin = 100000 \<rparr> (example_config 64 64 128 2) []
     (\<lambda>_ _ _ _. None)
   = Some (ResourceExhausted (complexity_message 10240), [])"
  using complexity_heuristic_rejects [of "example_config 64 64 128 2" "example_lowering 0"
      "''triton_gemm''" "example_computation F16 70 100 48"
      "\<lparr> shared_memory_per_block_optin = 100000 \<rparr>" "[]" "\<lambda>_ _ _ _. None"]
  by (simp add: example_config_def)

text \<open>The heuristic value of this configuration is not 24832.\<close>

theorem complexity_heuristic_value_counterexample:
  "complexity_heuristic_value
     \<lparr> block_m = 256, block_n = 256, block_k = 64, split_k = 1, num_stages = 2, num_warps = 4 \<rparr>
   \<noteq> Some 24832"
  by (simp add: complexity_heuristic_value_def tdiv_def)



text \<open>
  C9. For every program id \<open>pid_nc\<close> in \<open>[0, grid_m * grid_n)\<close> the emitted decoding of the
  swizzled tile coordinates has a value: the group size is
  \<open>min (grid_m - 8 * (pid_nc div (8 * grid_n))) 8\<close> and at least 1, so neither the signed
  remainder nor the signed division by it divides by zero, and the decoded coordinates satisfy
  \<open>0 \<le> pid_m < grid_m\<close> and \<open>0 \<le> pid_n < grid_n\<close>. The grid fits 32-bit integers
  (\<open>grid_m * grid_n \<le> INT_MAX\<close>, the program id being an \<open>i32\<close>; \<open>8 * grid_n \<le> INT_MAX\<close>,
  which holds for every tile count that the code computes from an \<^verbatim>\<open>int\<close> extent and a block
  size of at least 16).
\<close>

theorem swizzle_decode_in_range:
  "(0 < grid_m \<and> 0 < grid_n \<and> 8 * grid_n \<le> INT_MAX \<and> grid_m * grid_n \<le> INT_MAX \<and>
    0 \<le> pid (if large_batch then DimY else DimX) \<and>
    pid (if large_batch then DimY else DimX) < grid_m * grid_n
    \<longrightarrow> (\<exists>g pm pn.
          eval_i32 pid (group_size large_batch (s32 (group_m * grid_n)) grid_m) = Some g \<and>
          g = min (grid_m - 8 * (pid (if large_batch then DimY else DimX) div (8 * grid_n))) 8 \<and>
          1 \<le> g \<and>
          eval_i32 pid (pid_m large_batch (s32 (group_m * grid_n)) grid_m) = Some pm \<and>
          0 \<le> pm \<and> pm < grid_m \<and>
          eval_i32 pid (pid_n large_batch (s32 (group_m * grid_n)) grid_m) = Some pn \<and>
          0 \<le> pn \<and> pn < grid_n))
   \<and> (ceil_div n blk_n = Some grid_n \<and> 16 \<le> blk_n \<and> 0 < n \<and> n \<le> INT_MAX
        \<longrightarrow> 0 < grid_n \<and> 8 * grid_n \<le> INT_MAX)"
proof (intro conjI impI)
  define p where "p = pid (if large_batch then DimY else DimX)"
  define w where "w = 8 * grid_n"
  define gid where "gid = p div (8 * grid_n)"
  define g where "g = min (grid_m - 8 * gid) 8"
  assume "0 < grid_m \<and> 0 < grid_n \<and> 8 * grid_n \<le> INT_MAX \<and> grid_m * grid_n \<le> INT_MAX \<and>
    0 \<le> pid (if large_batch then DimY else DimX) \<and>
    pid (if large_batch then DimY else DimX) < grid_m * grid_n"
  then have a: "0 < grid_m" "0 < grid_n" "0 \<le> p" "p < grid_m * grid_n"
    and b: "w \<le> 2147483647" "grid_m * grid_n \<le> 2147483647"
    by (simp_all add: p_def w_def INT_MAX_def)
  note ar = swizzle_arith [OF a, folded gid_def, folded g_def]
  have gm: "grid_m \<le> 2147483647"
  proof -
    from a have "grid_m * 1 \<le> grid_m * grid_n" by (intro mult_left_mono) simp_all
    then have "grid_m \<le> grid_m * grid_n" by (simp only: mult_1_right)
    with b show ?thesis by linarith
  qed
  from a have w0: "0 < w" by (simp add: w_def)
  from b w0 have w: "s32 (group_m * grid_n) = w"
    by (simp add: group_m_def s32_id w_def)
  have e_nc: "eval_i32 pid (pid_nc large_batch) = Some p"
    by (simp add: pid_nc_def p_def)
  from b w0 have e_w: "eval_i32 pid (CreateConst I32Type w) = Some w"
    by (intro eval_CreateConst) simp_all
  have e_8: "eval_i32 pid group_m_op = Some 8"
    unfolding group_m_op_def group_m_def by (intro eval_CreateConst) simp_all
  from a gm have e_gm: "eval_i32 pid (CreateConst I32Type grid_m) = Some grid_m"
    by (intro eval_CreateConst) simp_all
  have e_gid: "eval_i32 pid (group_id large_batch w) = Some gid"
    unfolding group_id_def gid_def w_def [symmetric]
    using e_nc e_w a(3) w0 by (rule eval_DivSIOp)
  from ar(1,2) gm have bnd1: "- 2147483648 \<le> gid * 8" "gid * 8 \<le> 2147483647"
    "- 2147483648 \<le> grid_m - gid * 8" "grid_m - gid * 8 \<le> 2147483647"
    by linarith+
  have e_first: "eval_i32 pid (first_pid_m large_batch w) = Some (gid * 8)"
    unfolding first_pid_m_def using e_gid e_8 bnd1(1,2) by (rule eval_MulIOp)
  have e_sub: "eval_i32 pid (sub0 large_batch w grid_m) = Some (grid_m - gid * 8)"
    unfolding sub0_def using e_gm e_first bnd1(3,4) by (rule eval_SubIOp)
  have e_g: "eval_i32 pid (group_size large_batch w grid_m) = Some g"
    unfolding group_size_def g_def
    using eval_select_min [OF e_sub e_8] by (simp add: mult.commute)
  from ar have gp: "0 < g" by simp
  have e_rem: "eval_i32 pid (RemSIOp (pid_nc large_batch) (group_size large_batch w grid_m))
      = Some (p mod g)"
    using e_nc e_g a(3) gp by (rule eval_RemSIOp)
  from ar gm have bnd: "- 2147483648 \<le> gid * 8 + p mod g" "gid * 8 + p mod g \<le> 2147483647"
    by linarith+
  have e_pm: "eval_i32 pid (pid_m large_batch w grid_m) = Some (gid * 8 + p mod g)"
    unfolding pid_m_def using e_first e_rem bnd by (rule eval_AddIOp)
  have e_rw: "eval_i32 pid (RemSIOp (pid_nc large_batch) (CreateConst I32Type w))
      = Some (p mod w)"
    using e_nc e_w a(3) w0 by (rule eval_RemSIOp)
  from w0 have "0 \<le> p mod w" by simp
  with e_rw e_g gp have e_pn: "eval_i32 pid (pid_n large_batch w grid_m)
      = Some (p mod w div g)"
    unfolding pid_n_def by (intro eval_DivSIOp)
  from ar have "0 \<le> gid * 8 + p mod g" "gid * 8 + p mod g < grid_m"
    by linarith+
  moreover from ar have "0 \<le> p mod w div g" "p mod w div g < grid_n"
    unfolding w_def by blast+
  ultimately have rng: "0 \<le> gid * 8 + p mod g" "gid * 8 + p mod g < grid_m"
    "0 \<le> p mod w div g" "p mod w div g < grid_n" .
  from rng e_g e_pm e_pn ar(3) show "\<exists>g pm pn.
          eval_i32 pid (group_size large_batch (s32 (group_m * grid_n)) grid_m) = Some g \<and>
          g = min (grid_m - 8 * (pid (if large_batch then DimY else DimX) div (8 * grid_n))) 8 \<and>
          1 \<le> g \<and>
          eval_i32 pid (pid_m large_batch (s32 (group_m * grid_n)) grid_m) = Some pm \<and>
          0 \<le> pm \<and> pm < grid_m \<and>
          eval_i32 pid (pid_n large_batch (s32 (group_m * grid_n)) grid_m) = Some pn \<and>
          0 \<le> pn \<and> pn < grid_n"
    unfolding w by (auto simp: g_def gid_def p_def)
next
  assume "ceil_div n blk_n = Some grid_n \<and> 16 \<le> blk_n \<and> 0 < n \<and> n \<le> INT_MAX"
  then show "0 < grid_n" "8 * grid_n \<le> INT_MAX"
    using ceil_div_bounds [of n blk_n grid_n] by simp_all
qed

theorem swizzle_decode_in_range_witness:
  "eval_i32 (\<lambda>_. 7) (group_size False (s32 (group_m * 3)) 3) = Some 3 \<and>
   eval_i32 (\<lambda>_. 7) (pid_m False (s32 (group_m * 3)) 3) = Some 1 \<and>
   eval_i32 (\<lambda>_. 7) (pid_n False (s32 (group_m * 3)) 3) = Some 2 \<and>
   8 * (3 :: int) \<le> INT_MAX"
proof -
  from swizzle_decode_in_range [of 3 3 "\<lambda>_. 7" False 48 16, THEN conjunct1]
  obtain g pm pn where
    "eval_i32 (\<lambda>_. 7) (group_size False (s32 (group_m * 3)) 3) = Some g"
    "g = min (3 - 8 * (7 div (8 * 3))) 8"
    "eval_i32 (\<lambda>_. 7) (pid_m False (s32 (group_m * 3)) 3) = Some pm"
    "eval_i32 (\<lambda>_. 7) (pid_n False (s32 (group_m * 3)) 3) = Some pn"
    by (auto simp: INT_MAX_def)
  moreover have "eval_i32 (\<lambda>_. 7) (pid_m False (s32 (group_m * 3)) 3) = Some 1"
    "eval_i32 (\<lambda>_. 7) (pid_n False (s32 (group_m * 3)) 3) = Some 2"
    by code_simp+
  moreover from swizzle_decode_in_range [of 3 3 "\<lambda>_. 7" False 48 16, THEN conjunct2]
  have "8 * (3 :: int) \<le> INT_MAX"
    by (simp add: ceil_div_def INT_MAX_def)
  ultimately show ?thesis by simp
qed

text \<open>
  C10. The block dimensions of a successful lowering are \<open>(num_warps * WarpSize, 1, 1)\<close>: they
  depend on the number of warps of the configuration and on the warp size only. This holds for
  the launch dimensions that \<^verbatim>\<open>MatMulImpl\<close> returns and for those that \<^verbatim>\<open>TritonWrapper\<close>
  returns with \<^verbatim>\<open>MatMul\<close> as its generator.
\<close>

theorem launch_block_dimensions:
  "(MatMulImpl I env analysis dot_instr fn config shmem_budget = Some (Ok ld, fn')
      \<longrightarrow> thread_counts_per_block ld = (num_warps config * WarpSize env, 1, 1))
   \<and> (TritonWrapper lowering fn_name hlo_computation device_info config llvm_module
        (MatMul env analysis) = Some (Ok ld', llvm_module')
      \<longrightarrow> thread_counts_per_block ld' = (num_warps config * WarpSize env, 1, 1))"
proof (intro conjI impI)
  assume "MatMulImpl I env analysis dot_instr fn config shmem_budget = Some (Ok ld, fn')"
  then show "thread_counts_per_block ld = (num_warps config * WarpSize env, 1, 1)"
    by (elim MatMulImpl_OkE) simp
next
  assume "TritonWrapper lowering fn_name hlo_computation device_info config llvm_module
        (MatMul env analysis) = Some (Ok ld', llvm_module')"
  then obtain d f ld0 f' where
    g: "MatMul env analysis d f config (shared_memory_per_block_optin device_info)
          = Some (Ok ld0, f')"
    and l: "ld' = ld0\<lparr>shared_mem_bytes :=
             s32 (triton_gpu_shared lowering (f'\<lparr>blocks := blocks f' @ [ReturnOp]\<rparr>))\<rparr>"
    by (elim TritonWrapper_OkE)
  obtain J where "MatMul env analysis d f config (shared_memory_per_block_optin device_info)
       = MatMulImpl J env analysis d f config (shared_memory_per_block_optin device_info)"
    by (rule MatMul_cases)
  with g have "MatMulImpl J env analysis d f config (shared_memory_per_block_optin device_info)
       = Some (Ok ld0, f')"
    by simp
  then have "thread_counts_per_block ld0 = (num_warps config * WarpSize env, 1, 1)"
    by (elim MatMulImpl_OkE) simp
  with l show "thread_counts_per_block ld' = (num_warps config * WarpSize env, 1, 1)"
    by simp
qed

theorem launch_block_dimensions_witness:
  "(\<exists>ld fn'. MatMulImpl int32_t example_env (row_major_analysis F16 70 100 48)
      (row_major_dot F16 F16 70 100 48) (example_fn F16Type) (example_config 32 16 32 4) 100000
      = Some (Ok ld, fn') \<and> thread_counts_per_block ld = (128, 1, 1))
   \<and> (\<exists>ld' llvm_module'. TritonWrapper (example_lowering 4096) ''triton_gemm''
      (example_computation F16 70 100 48) \<lparr> shared_memory_per_block_optin = 100000 \<rparr>
      (example_config 32 16 32 4) []
      (MatMul example_env (row_major_analysis F16 70 100 48)) = Some (Ok ld', llvm_module')
      \<and> thread_counts_per_block ld' = (128, 1, 1))"
proof -
  from example_MatMulImpl obtain ld fn' where
    a: "MatMulImpl int32_t example_env (row_major_analysis F16 70 100 48)
      (row_major_dot F16 F16 70 100 48) (example_fn F16Type) (example_config 32 16 32 4) 100000
      = Some (Ok ld, fn')"
    by auto
  from example_TritonWrapper obtain ld' llvm_module' where
    b: "TritonWrapper (example_lowering 4096) ''triton_gemm''
      (example_computation F16 70 100 48) \<lparr> shared_memory_per_block_optin = 100000 \<rparr>
      (example_config 32 16 32 4) []
      (MatMul example_env (row_major_analysis F16 70 100 48)) = Some (Ok ld', llvm_module')"
    by auto
  from launch_block_dimensions [of int32_t example_env "row_major_analysis F16 70 100 48"
      "row_major_dot F16 F16 70 100 48" "example_fn F16Type" "example_config 32 16 32 4"
      100000 ld fn' "example_lowering 4096" "''triton_gemm''"
      "example_computation F16 70 100 48" "\<lparr> shared_memory_per_block_optin = 100000 \<rparr>"
      "[]" ld' llvm_module'] a b
  have "thread_counts_per_block ld = (128, 1, 1)" "thread_counts_per_block ld' = (128, 1, 1)"
    by (simp_all add: example_config_def example_env_def)
  with a b show ?thesis by blast
qed

end
